theory Spec2Isabelle
  imports Main "HOL-Library.Sublist" "HOL-Library.Word"
begin

section \<open>Kubernetes objects read by the diagnostic engines\<close>

text \<open>
  The Go structs of \<open>k8s.io/api\<close> are modelled as records holding the fields the
  engines read. A Go pointer field that may be \<open>nil\<close> is an \<open>option\<close>; Go string
  types with named constants (\<open>PodPhase\<close>, \<open>PathType\<close>, \<open>PolicyType\<close>) stay strings,
  since the code compares and prints them as strings.
\<close>

type_synonym PodPhase = string

definition PodPending :: PodPhase where "PodPending = ''Pending''"
definition PodRunning :: PodPhase where "PodRunning = ''Running''"
definition PodSucceeded :: PodPhase where "PodSucceeded = ''Succeeded''"
definition PodFailed :: PodPhase where "PodFailed = ''Failed''"
definition PodUnknown :: PodPhase where "PodUnknown = ''Unknown''"

record ContainerStateWaiting =
  WaitingReason :: string

record ContainerStateTerminated =
  TerminatedReason :: string

record ContainerState =
  Waiting :: "ContainerStateWaiting option"
  Terminated :: "ContainerStateTerminated option"

record ContainerStatus =
  ContainerName :: string
  State :: ContainerState
  LastTerminationState :: ContainerState
  Ready :: bool
  RestartCount :: "32 word"

record PodCondition =
  CondType :: string
  CondStatus :: string
  CondMessage :: string

definition PodReady :: string where "PodReady = ''Ready''"
definition ConditionTrue :: string where "ConditionTrue = ''True''"

record PodStatus =
  Phase :: PodPhase
  Reason :: string
  Conditions :: "PodCondition list"
  ContainerStatuses :: "ContainerStatus list"
  InitContainerStatuses :: "ContainerStatus list"

record Container =
  SpecName :: string

record PodSpec =
  NodeName :: string
  Containers :: "Container list"

text \<open>\<open>CreationTimestamp\<close> is kept as seconds since the epoch; the engines only hand it to
  \<open>util.FormatAge\<close>.\<close>

record Pod =
  PodName :: string
  CreationTimestamp :: int
  Spec :: PodSpec
  Status :: PodStatus

text \<open>A failed call of the Kubernetes API, carrying the text of \<open>err.Error()\<close>.\<close>

datatype k8s_error = ApiError string

fun Error :: "k8s_error \<Rightarrow> string" where
  "Error (ApiError msg) = msg"


section \<open>Health predicates\<close>

text \<open>
  \<open>isPodHealthy\<close> (pkg/tools/diagnostics.go). The loop over the container statuses
  returns false at the first status that is not ready or is waiting.
\<close>

fun containersReady :: "ContainerStatus list \<Rightarrow> bool" where
  "containersReady [] = True"
| "containersReady (cs # rest) =
     (if \<not> Ready cs then False
      else if Waiting (State cs) \<noteq> None then False
      else containersReady rest)"

definition isPodHealthy :: "Pod \<Rightarrow> bool" where
  "isPodHealthy p =
     (if Phase (Status p) = PodRunning then containersReady (ContainerStatuses (Status p))
      else if Phase (Status p) = PodSucceeded then True
      else False)"

text \<open>
  \<open>podPhaseReason\<close>. Each of the two loops returns at the first container status, in
  list order, that carries a non-empty waiting reason or a non-empty terminated reason;
  \<open>firstReason\<close> is that loop, \<open>None\<close> when it falls through.
\<close>

fun firstReason :: "ContainerStatus list \<Rightarrow> string option" where
  "firstReason [] = None"
| "firstReason (cs # rest) =
     (if Waiting (State cs) \<noteq> None \<and> WaitingReason (the (Waiting (State cs))) \<noteq> []
      then Some (WaitingReason (the (Waiting (State cs))))
      else if Terminated (State cs) \<noteq> None \<and> TerminatedReason (the (Terminated (State cs))) \<noteq> []
      then Some (TerminatedReason (the (Terminated (State cs))))
      else firstReason rest)"

definition podPhaseReason :: "Pod \<Rightarrow> string" where
  "podPhaseReason p =
     (case firstReason (ContainerStatuses (Status p)) of
        Some r \<Rightarrow> r
      | None \<Rightarrow>
         (case firstReason (InitContainerStatuses (Status p)) of
            Some r \<Rightarrow> ''Init:'' @ r
          | None \<Rightarrow>
             (if Reason (Status p) \<noteq> [] then Reason (Status p) else Phase (Status p))))"


section \<open>Topology resolvers\<close>

subsection \<open>Ingress path matching\<close>

type_synonym PathType = string

definition PathTypeExact :: PathType where "PathTypeExact = ''Exact''"
definition PathTypePrefix :: PathType where "PathTypePrefix = ''Prefix''"
definition PathTypeImplementationSpecific :: PathType where
  "PathTypeImplementationSpecific = ''ImplementationSpecific''"

text \<open>\<open>strings.HasPrefix s p\<close> is \<open>len(s) >= len(p) && s[:len(p)] == p\<close>.\<close>

definition HasPrefix :: "string \<Rightarrow> string \<Rightarrow> bool" where
  "HasPrefix s p = (length s \<ge> length p \<and> take (length p) s = p)"

definition matchPath :: "string \<Rightarrow> string \<Rightarrow> PathType \<Rightarrow> bool" where
  "matchPath pattern path pathType =
     (if pathType = PathTypeExact then path = pattern
      else if pathType = PathTypePrefix then HasPrefix path pattern
      else HasPrefix path pattern)"

subsection \<open>Endpoint health\<close>

record ObjectReference =
  RefName :: string

record K8sEndpointAddress =
  AddrIP :: string
  TargetRef :: "ObjectReference option"
  AddrNodeName :: "string option"

record EndpointSubset =
  Addresses :: "K8sEndpointAddress list"
  NotReadyAddresses :: "K8sEndpointAddress list"

record Endpoints =
  Subsets :: "EndpointSubset list"

record EndpointAddress =
  IP :: string
  EaPodName :: string
  EaNodeName :: string

record EndpointHealth =
  ServiceName :: string
  ServiceNS :: string
  TotalEndpoints :: int
  ReadyCount :: int
  NotReadyCount :: int
  ReadyAddresses :: "EndpointAddress list"
  NotReadyPods :: "EndpointAddress list"

text \<open>
  The body shared by the two inner loops of \<open>GetServiceEndpointHealth\<close>: an
  \<open>EndpointAddress\<close> whose pod and node names stay empty when the address has no target
  reference or node name.
\<close>

definition mkEndpointAddress :: "K8sEndpointAddress \<Rightarrow> EndpointAddress" where
  "mkEndpointAddress addr =
     (let ea = \<lparr>IP = AddrIP addr, EaPodName = [], EaNodeName = []\<rparr>;
          ea1 = (case TargetRef addr of None \<Rightarrow> ea | Some r \<Rightarrow> ea\<lparr>EaPodName := RefName r\<rparr>);
          ea2 = (case AddrNodeName addr of None \<Rightarrow> ea1 | Some n \<Rightarrow> ea1\<lparr>EaNodeName := n\<rparr>)
      in ea2)"

fun readyLoop :: "EndpointHealth \<Rightarrow> K8sEndpointAddress list \<Rightarrow> EndpointHealth" where
  "readyLoop health [] = health"
| "readyLoop health (addr # rest) =
     readyLoop (health\<lparr>ReadyAddresses := ReadyAddresses health @ [mkEndpointAddress addr],
                       ReadyCount := ReadyCount health + 1\<rparr>) rest"

fun notReadyLoop :: "EndpointHealth \<Rightarrow> K8sEndpointAddress list \<Rightarrow> EndpointHealth" where
  "notReadyLoop health [] = health"
| "notReadyLoop health (addr # rest) =
     notReadyLoop (health\<lparr>NotReadyPods := NotReadyPods health @ [mkEndpointAddress addr],
                          NotReadyCount := NotReadyCount health + 1\<rparr>) rest"

fun subsetLoop :: "EndpointHealth \<Rightarrow> EndpointSubset list \<Rightarrow> EndpointHealth" where
  "subsetLoop health [] = health"
| "subsetLoop health (sub # rest) =
     subsetLoop (notReadyLoop (readyLoop health (Addresses sub)) (NotReadyAddresses sub)) rest"

text \<open>
  \<open>GetServiceEndpointHealth\<close> (pkg/k8s/nodes.go). The first argument is the API call
  \<open>Endpoints(namespace).Get(serviceName)\<close>. The counters are Go \<open>int\<close>s that start at
  zero and grow by one per address of the fetched object; they are modelled as \<open>int\<close>.
\<close>

definition GetServiceEndpointHealth ::
  "(string \<Rightarrow> string \<Rightarrow> k8s_error + Endpoints) \<Rightarrow> string \<Rightarrow> string \<Rightarrow> k8s_error + EndpointHealth" where
  "GetServiceEndpointHealth getEndpoints namespace serviceName =
     (case getEndpoints namespace serviceName of
        Inl err \<Rightarrow> Inl err
      | Inr ep \<Rightarrow>
          (let health = \<lparr>ServiceName = serviceName, ServiceNS = namespace, TotalEndpoints = 0,
                          ReadyCount = 0, NotReadyCount = 0, ReadyAddresses = [], NotReadyPods = []\<rparr>;
               health1 = subsetLoop health (Subsets ep)
           in Inr (health1\<lparr>TotalEndpoints := ReadyCount health1 + NotReadyCount health1\<rparr>)))"


subsection \<open>Pods behind a service\<close>

text \<open>
  A Go \<open>map[string]string\<close> of labels is an association list with distinct keys, \<open>None\<close>
  for the \<open>nil\<close> map; its \<open>len\<close> is the length of the list.
\<close>

type_synonym Labels = "(string \<times> string) list option"

definition lenLabels :: "Labels \<Rightarrow> nat" where
  "lenLabels m = (case m of None \<Rightarrow> 0 | Some kvs \<Rightarrow> length kvs)"

record Service =
  SvcName :: string
  SvcNamespace :: string
  ClusterIP :: string
  Selector :: Labels

text \<open>
  \<open>GetPodsForService\<close> (pkg/k8s/nodes.go). The first argument is the API call
  \<open>Pods(namespace).List\<close> with the label selector built from the service's selector; it
  is reached only behind the guard. The Go \<open>nil\<close> slice is the empty list.
\<close>

definition GetPodsForService ::
  "(string \<Rightarrow> (string \<times> string) list \<Rightarrow> k8s_error + Pod list) \<Rightarrow> Service \<Rightarrow> k8s_error + Pod list" where
  "GetPodsForService listPods svc =
     (if Selector svc = None \<or> lenLabels (Selector svc) = 0 then Inr []
      else (case listPods (SvcNamespace svc) (the (Selector svc)) of
              Inl err \<Rightarrow> Inl err
            | Inr items \<Rightarrow> Inr items))"


section \<open>Diagram emitter (pkg/mermaid)\<close>

type_synonym Direction = string
type_synonym Shape = string
type_synonym EdgeStyle = string
type_synonym Severity = string

definition DirectionTB :: Direction where "DirectionTB = ''TB''"
definition DirectionLR :: Direction where "DirectionLR = ''LR''"

definition ShapeRect :: Shape where "ShapeRect = ''rect''"
definition ShapeRound :: Shape where "ShapeRound = ''round''"
definition ShapeStadium :: Shape where "ShapeStadium = ''stadium''"
definition ShapeCircle :: Shape where "ShapeCircle = ''circle''"
definition ShapeDiamond :: Shape where "ShapeDiamond = ''diamond''"
definition ShapeHex :: Shape where "ShapeHex = ''hex''"
definition ShapeTrapAlt :: Shape where "ShapeTrapAlt = ''trapalt''"
definition ShapeCyl :: Shape where "ShapeCyl = ''cyl''"

definition EdgeSolid :: EdgeStyle where "EdgeSolid = ''solid''"
definition EdgeDotted :: EdgeStyle where "EdgeDotted = ''dotted''"
definition EdgeThick :: EdgeStyle where "EdgeThick = ''thick''"

definition SeverityCritical :: Severity where "SeverityCritical = ''critical''"
definition SeverityWarning :: Severity where "SeverityWarning = ''warning''"
definition SeverityHealthy :: Severity where "SeverityHealthy = ''healthy''"
definition SeverityInfo :: Severity where "SeverityInfo = ''info''"

definition severityStyles :: "Severity \<Rightarrow> string option" where
  "severityStyles sev =
     (if sev = SeverityCritical then Some ''fill:#ffcccc,stroke:#cc0000,stroke-width:2px''
      else if sev = SeverityWarning then Some ''fill:#ffffcc,stroke:#cccc00,stroke-width:2px''
      else if sev = SeverityHealthy then Some ''fill:#ccffcc,stroke:#00cc00,stroke-width:2px''
      else if sev = SeverityInfo then Some ''fill:#cce5ff,stroke:#4a90d9,stroke-width:2px''
      else None)"

subsection \<open>SafeID\<close>

text \<open>
  \<open>safeIDRegexp\<close> is \<open>[^a-zA-Z0-9_]\<close>; \<open>idChar\<close> is the complement of what it matches
  among the bytes below 128.
\<close>

definition idChar :: "char \<Rightarrow> bool" where
  "idChar c =
     (let n = (of_char c :: nat)
      in (97 \<le> n \<and> n \<le> 122) \<or> (65 \<le> n \<and> n \<le> 90) \<or> (48 \<le> n \<and> n \<le> 57) \<or> n = 95)"

definition inRange :: "char \<Rightarrow> nat \<Rightarrow> nat \<Rightarrow> bool" where
  "inRange c lo hi = (lo \<le> of_char c \<and> (of_char c :: nat) \<le> hi)"

text \<open>
  The regexp engine reads a Go string rune by rune with \<open>utf8.DecodeRuneInString\<close>:
  \<open>runeWidth s\<close> is the number of bytes of the first rune of the non-empty \<open>s\<close>. A byte
  that starts no valid UTF-8 sequence is read as the one-byte rune U+FFFD.
\<close>

definition runeWidth :: "string \<Rightarrow> nat" where
  "runeWidth s =
     (let b = (of_char (hd s) :: nat)
      in if b < 128 then 1
         else if b < 194 \<or> 244 < b then 1
         else
           (let sz = (if b < 224 then 2 else if b < 240 then 3 else (4::nat));
                lo = (if b = 224 then 160 else if b = 240 then 144 else (128::nat));
                hi = (if b = 237 then 159 else if b = 244 then 143 else (191::nat))
            in if length s < sz then 1
               else if \<not> inRange (s ! 1) lo hi then 1
               else if sz \<le> 2 then 2
               else if \<not> inRange (s ! 2) 128 191 then 1
               else if sz \<le> 3 then 3
               else if \<not> inRange (s ! 3) 128 191 then 1
               else 4))"

text \<open>
  \<open>safeIDRegexp.ReplaceAllString(s, "_")\<close>: every rune outside the class becomes one
  underscore, every byte of the class is copied.
\<close>

fun ReplaceAllString :: "string \<Rightarrow> string" where
  "ReplaceAllString [] = []"
| "ReplaceAllString (c # cs) =
     (if idChar c then c # ReplaceAllString cs
      else CHR ''_'' # ReplaceAllString (drop (runeWidth (c # cs) - 1) cs))"

definition isDigit :: "char \<Rightarrow> bool" where
  "isDigit c = (48 \<le> (of_char c :: nat) \<and> (of_char c :: nat) \<le> 57)"

definition SafeID :: "string \<Rightarrow> string" where
  "SafeID s =
     (let id = ReplaceAllString s
      in if length id = 0 then ''_''
         else if isDigit (hd id) then ''_'' @ id
         else id)"

subsection \<open>Flowchart builder\<close>

definition nodeShape :: "string \<Rightarrow> string \<Rightarrow> Shape \<Rightarrow> string" where
  "nodeShape ident label shape =
     (if shape = ShapeRound then ident @ ''('' @ label @ '')''
      else if shape = ShapeStadium then ident @ ''(['' @ label @ ''])''
      else if shape = ShapeCircle then ident @ ''(('' @ label @ ''))''
      else if shape = ShapeDiamond then ident @ ''{'' @ label @ ''}''
      else if shape = ShapeHex then ident @ ''{{'' @ label @ ''}}''
      else if shape = ShapeTrapAlt then ident @ ''[/'' @ label @ ''/]''
      else if shape = ShapeCyl then ident @ ''[('' @ label @ '')]''
      else ident @ ''['' @ label @ '']'')"

definition edgeArrow :: "EdgeStyle \<Rightarrow> string \<Rightarrow> string" where
  "edgeArrow style label =
     (if style = EdgeDotted then (if label \<noteq> [] then ''-.->|'' @ label @ ''|'' else ''-.->'')
      else if style = EdgeThick then (if label \<noteq> [] then ''==>|'' @ label @ ''|'' else ''==>'')
      else (if label \<noteq> [] then ''-->|'' @ label @ ''|'' else ''-->''))"

text \<open>\<open>EscapeLabel\<close> replaces every double quote (byte 34) by \<open>#quot;\<close>.\<close>

definition EscapeLabel :: "string \<Rightarrow> string" where
  "EscapeLabel s = concat (map (\<lambda>c. if (of_char c :: nat) = 34 then ''#quot;'' else [c]) s)"

definition BR :: string where "BR = ''<br/>''"

record Flowchart =
  direction :: Direction
  lines :: "string list"
  styles :: "string list"

definition NewFlowchart :: "Direction \<Rightarrow> Flowchart" where
  "NewFlowchart dir = \<lparr>direction = dir, lines = [], styles = []\<rparr>"

definition AddNode :: "Flowchart \<Rightarrow> string \<Rightarrow> string \<Rightarrow> Shape \<Rightarrow> Flowchart" where
  "AddNode f ident label shape =
     f\<lparr>lines := lines f @ [''    '' @ nodeShape ident (EscapeLabel label) shape]\<rparr>"

definition AddEdge :: "Flowchart \<Rightarrow> string \<Rightarrow> string \<Rightarrow> string \<Rightarrow> EdgeStyle \<Rightarrow> Flowchart" where
  "AddEdge f from to label style =
     f\<lparr>lines := lines f @ [''    '' @ from @ '' '' @ edgeArrow style (EscapeLabel label) @ '' '' @ to]\<rparr>"

definition AddStyle :: "Flowchart \<Rightarrow> string \<Rightarrow> Severity \<Rightarrow> Flowchart" where
  "AddStyle f nodeID sev =
     (case severityStyles sev of
        Some style \<Rightarrow> f\<lparr>styles := styles f @ [''    style '' @ nodeID @ '' '' @ style]\<rparr>
      | None \<Rightarrow> f)"

definition AddRawStyle :: "Flowchart \<Rightarrow> string \<Rightarrow> string \<Rightarrow> Flowchart" where
  "AddRawStyle f nodeID style = f\<lparr>styles := styles f @ [''    style '' @ nodeID @ '' '' @ style]\<rparr>"

definition Render :: "Flowchart \<Rightarrow> string" where
  "Render f =
     ''flowchart '' @ direction f @ [CHR 10]
     @ concat (map (\<lambda>line. line @ [CHR 10]) (lines f))
     @ concat (map (\<lambda>style. style @ [CHR 10]) (styles f))"

definition WrapBlock :: "string \<Rightarrow> string" where
  "WrapBlock code = ''```mermaid'' @ [CHR 10] @ code @ [CHR 10] @ ''```''"

definition RenderBlock :: "Flowchart \<Rightarrow> string" where
  "RenderBlock f = WrapBlock (Render f)"


section \<open>Report text\<close>

text \<open>
  The engines write their report into a \<open>strings.Builder\<close>. The formatting helpers of
  package \<open>util\<close> (\<open>FormatHeader\<close>, \<open>FormatSubHeader\<close>, \<open>FormatFinding\<close>, \<open>FormatLabels\<close>,
  \<open>FormatTable\<close>, \<open>FormatAge\<close>) are not part of the sources at hand, so the builder is a
  list of chunks in writing order: literal text, or one call of such a helper with its
  arguments. \<open>FormatFinding severity message\<close> is one finding.
\<close>

datatype cell = Cell string | FormatAge int

datatype chunk =
    Str string
  | FormatHeader string
  | FormatSubHeader string
  | FormatFinding string string
  | FormatLabels Labels
  | FormatKeyValue string string
  | FormatTable "string list" "cell list list"

definition newline :: string where "newline = [CHR 10]"
definition apostrophe :: string where "apostrophe = [CHR 39]"

text \<open>The em dash of the Go string literals, as its three UTF-8 bytes.\<close>

definition emDash :: string where "emDash = [CHR 226, CHR 128, CHR 148]"

text \<open>\<open>fmt.Sprintf("%d", n)\<close>: decimal digits, with a minus sign for a negative number.\<close>

fun natToDec :: "nat \<Rightarrow> string" where
  "natToDec n = (if n < 10 then [''0123456789'' ! n] else natToDec (n div 10) @ [''0123456789'' ! (n mod 10)])"

declare natToDec.simps [simp del]

definition fmt_d :: "int \<Rightarrow> string" where
  "fmt_d i = (if i < 0 then ''-'' @ natToDec (nat (- i)) else natToDec (nat i))"

text \<open>The running state of one engine: the builder, the finding counter and the list
  of suggested actions.\<close>

record Report =
  sb :: "chunk list"
  findings :: int
  actions :: "chunk list list"

definition WriteString :: "Report \<Rightarrow> chunk list \<Rightarrow> Report" where
  "WriteString r cs = r\<lparr>sb := sb r @ cs\<rparr>"

text \<open>\<open>podContainerSummary\<close>: ready containers, declared containers, and the restarts
  summed in \<open>int32\<close>.\<close>

fun summaryLoop :: "ContainerStatus list \<Rightarrow> int \<Rightarrow> 32 word \<Rightarrow> int \<times> 32 word" where
  "summaryLoop [] ready restarts = (ready, restarts)"
| "summaryLoop (cs # rest) ready restarts =
     summaryLoop rest (if Ready cs then ready + 1 else ready) (restarts + RestartCount cs)"

definition podContainerSummary :: "Pod \<Rightarrow> int \<times> int \<times> 32 word" where
  "podContainerSummary p =
     (let total' = int (length (Containers (Spec p)));
          (ready, restarts) = summaryLoop (ContainerStatuses (Status p)) 0 0
      in (ready, total', restarts))"


section \<open>Request-path trace (diagnose\_request\_path)\<close>

record IngressServiceBackend =
  BackendName :: string
  PortName :: string
  PortNumber :: "32 word"

record HTTPIngressPath =
  Path :: string
  PathTypeOf :: "PathType option"
  BackendService :: "IngressServiceBackend option"

record IngressRule =
  Host :: string
  HTTP :: "HTTPIngressPath list option"

record Ingress =
  IngName :: string
  IngNamespace :: string
  Rules :: "IngressRule list"

text \<open>
  \<open>FindIngressForHostPath\<close> (pkg/k8s/nodes.go): three nested loops that return at the
  first path that matches. The first argument is the API call \<open>Ingresses(namespace).List\<close>.
\<close>

fun pathLoop :: "HTTPIngressPath list \<Rightarrow> string \<Rightarrow> HTTPIngressPath option" where
  "pathLoop [] path = None"
| "pathLoop (p # ps) path =
     (let pathType = (case PathTypeOf p of None \<Rightarrow> PathTypePrefix | Some t \<Rightarrow> t)
      in if matchPath (Path p) path pathType then Some p else pathLoop ps path)"

fun ruleLoop :: "IngressRule list \<Rightarrow> string \<Rightarrow> string \<Rightarrow> (IngressRule \<times> HTTPIngressPath) option" where
  "ruleLoop [] host path = None"
| "ruleLoop (rule # rules) host path =
     (if Host rule \<noteq> host then ruleLoop rules host path
      else (case HTTP rule of
              None \<Rightarrow> ruleLoop rules host path
            | Some paths \<Rightarrow>
               (case pathLoop paths path of
                  Some p \<Rightarrow> Some (rule, p)
                | None \<Rightarrow> ruleLoop rules host path)))"

fun ingressLoop ::
  "Ingress list \<Rightarrow> string \<Rightarrow> string \<Rightarrow> (Ingress \<times> IngressRule \<times> HTTPIngressPath) option" where
  "ingressLoop [] host path = None"
| "ingressLoop (ing # ings) host path =
     (case ruleLoop (Rules ing) host path of
        Some (rule, p) \<Rightarrow> Some (ing, rule, p)
      | None \<Rightarrow> ingressLoop ings host path)"

definition FindIngressForHostPath ::
  "(string \<Rightarrow> k8s_error + Ingress list) \<Rightarrow> string \<Rightarrow> string \<Rightarrow> string
     \<Rightarrow> k8s_error + (Ingress \<times> IngressRule \<times> HTTPIngressPath)" where
  "FindIngressForHostPath listIngresses namespace host path =
     (case listIngresses namespace of
        Inl err \<Rightarrow> Inl err
      | Inr ingresses \<Rightarrow>
         (case (if namespace = [] then listIngresses [] else Inr ingresses) of
            Inl err \<Rightarrow> Inl err
          | Inr ingresses' \<Rightarrow>
             (case ingressLoop ingresses' host path of
                Some found \<Rightarrow> Inr found
              | None \<Rightarrow> Inl (ApiError (''no ingress found for '' @ host @ path)))))"

text \<open>Stage [2]: the backend port shown in the report and in the diagram.\<close>

definition backendSvcPort :: "HTTPIngressPath \<Rightarrow> string" where
  "backendSvcPort matchedPath =
     (case BackendService matchedPath of
        None \<Rightarrow> []
      | Some b \<Rightarrow> (if PortName b \<noteq> [] then PortName b else fmt_d (sint (PortNumber b))))"

text \<open>
  Stage [3], the endpoints block of the handler: \<open>epResult\<close> is what
  \<open>client.GetServiceEndpointHealth(ctx, ing.Namespace, backendSvcName)\<close> returned.
\<close>

definition endpointsStage ::
  "(k8s_error + EndpointHealth) \<Rightarrow> Service \<Rightarrow> Ingress \<Rightarrow> Report \<Rightarrow> Report" where
  "endpointsStage epResult svc ing r =
     (let r1 = WriteString r [Str (''[3] ENDPOINTS'' @ newline)]
      in case epResult of
           Inl err \<Rightarrow>
             (WriteString r1 [Str ''    '',
                 FormatFinding ''CRITICAL'' (''Could not get endpoints: '' @ Error err), Str newline])
               \<lparr>findings := findings r1 + 1\<rparr>
         | Inr epHealth \<Rightarrow>
             (let r2 = WriteString r1 [Str (''    Ready: '' @ fmt_d (ReadyCount epHealth) @ ''/''
                                            @ fmt_d (TotalEndpoints epHealth) @ newline)]
              in if TotalEndpoints epHealth = 0 then
                   (WriteString r2 [Str ''    '',
                       FormatFinding ''CRITICAL''
                         (''Service has 0 endpoints '' @ emDash @ '' no pods match the selector''),
                       Str newline])
                     \<lparr>findings := findings r2 + 1,
                      actions := actions r2 @
                        [[Str ''Check that pods with labels '', FormatLabels (Selector svc),
                          Str ('' exist in namespace '' @ IngNamespace ing)]]\<rparr>
                 else if NotReadyCount epHealth > 0 then
                   (WriteString r2
                      ([Str ''    '',
                        FormatFinding ''WARNING''
                          (fmt_d (NotReadyCount epHealth) @ '' endpoint(s) not ready''),
                        Str newline]
                       @ map (\<lambda>nr. Str (''      - '' @ EaPodName nr @ '' ('' @ IP nr @ '')'' @ newline))
                           (NotReadyPods epHealth)))
                     \<lparr>findings := findings r2 + 1\<rparr>
                 else r2))"

text \<open>The topology block of the handler. Go's \<open>label[:30]\<close> cuts bytes.\<close>

fun podNodesLoop :: "Flowchart \<Rightarrow> Pod list \<Rightarrow> Flowchart" where
  "podNodesLoop fc [] = fc"
| "podNodesLoop fc (p # ps) =
     (let podID = SafeID (''pod_'' @ PodName p);
          label = (if length (PodName p) > 30 then take 30 (PodName p) @ ''...'' else PodName p);
          healthy = isPodHealthy p;
          fc1 = AddNode fc podID label ShapeRound;
          fc2 = AddEdge fc1 ''svc'' podID [] EdgeSolid;
          fc3 = (if \<not> healthy then AddStyle fc2 podID SeverityCritical
                 else AddStyle fc2 podID SeverityHealthy)
      in podNodesLoop fc3 ps)"

definition requestPathTopology ::
  "Ingress \<Rightarrow> IngressRule \<Rightarrow> HTTPIngressPath \<Rightarrow> Service \<Rightarrow> Pod list \<Rightarrow> Flowchart" where
  "requestPathTopology ing rule matchedPath svc pods =
     (let fc = NewFlowchart DirectionTB;
          fc1 = AddNode fc ''internet'' ''Internet'' ShapeCircle;
          fc2 = AddNode fc1 ''agw''
                  (''Ingress: '' @ IngName ing @ BR @ BR @ '': '' @ Host rule @ ''  Path: '' @ Path matchedPath)
                  ShapeTrapAlt;
          fc3 = AddNode fc2 ''svc''
                  (''Service: '' @ SvcName svc @ BR @ ''ClusterIP:'' @ backendSvcPort matchedPath)
                  ShapeRect;
          fc4 = AddEdge fc3 ''internet'' ''agw'' ''HTTPS'' EdgeSolid;
          fc5 = AddEdge fc4 ''agw'' ''svc'' [] EdgeSolid;
          fc6 = AddRawStyle fc5 ''agw'' ''fill:#cce5ff,stroke:#4a90d9,stroke-width:2px''
      in podNodesLoop fc6 pods)"


section \<open>Service diagnosis (diagnose\_service)\<close>

text \<open>
  Section 3, backing pods: \<open>podsResult\<close> is what \<open>client.GetPodsForService(ctx, svc)\<close>
  returned. The first loop fills the table and counts; the second counts again for the
  summary line.
\<close>

fun podRowsLoop :: "Pod list \<Rightarrow> cell list list \<Rightarrow> int \<Rightarrow> cell list list \<times> int" where
  "podRowsLoop [] rows fnd = (rows, fnd)"
| "podRowsLoop (p # ps) rows fnd =
     (case podContainerSummary p of
        (ready, total', restarts) \<Rightarrow>
          podRowsLoop ps
            (rows @ [[Cell (PodName p), Cell (podPhaseReason p),
                      Cell (fmt_d ready @ ''/'' @ fmt_d total'),
                      Cell (fmt_d (sint restarts)),
                      Cell (NodeName (Spec p)),
                      FormatAge (CreationTimestamp p)]])
            (if \<not> isPodHealthy p then fnd + 1 else fnd))"

fun unhealthyLoop :: "Pod list \<Rightarrow> int \<Rightarrow> int" where
  "unhealthyLoop [] unhealthyPods = unhealthyPods"
| "unhealthyLoop (p # ps) unhealthyPods =
     unhealthyLoop ps (if \<not> isPodHealthy p then unhealthyPods + 1 else unhealthyPods)"

definition backingPodsSection :: "(k8s_error + Pod list) \<Rightarrow> Report \<Rightarrow> Report" where
  "backingPodsSection podsResult r =
     (case podsResult of
        Inl err \<Rightarrow> r
      | Inr pods \<Rightarrow>
          (if length pods > 0 then
             (let r1 = WriteString r [Str newline, FormatSubHeader ''Backing Pods'', Str newline]
              in case podRowsLoop pods [] (findings r1) of
                   (rows, fnd) \<Rightarrow>
                     (let r2 = (WriteString r1
                                  [FormatTable [''POD'', ''STATUS'', ''READY'', ''RESTARTS'', ''NODE'', ''AGE''] rows])
                                 \<lparr>findings := fnd\<rparr>;
                          unhealthyPods = unhealthyLoop pods 0
                      in if unhealthyPods > 0 then
                           WriteString r2
                             [Str (newline @ ''  ''),
                              FormatFinding ''CRITICAL''
                                (fmt_d unhealthyPods @ ''/'' @ fmt_d (int (length pods)) @ '' pods are unhealthy''),
                              Str newline]
                         else r2))
           else r))"

text \<open>
  Section 7, recent events. \<open>eventsResult\<close> is what \<open>client.GetEventsForObject\<close> returned;
  its error is dropped and leaves the \<open>nil\<close> slice. The loop tests the length of the whole
  slice \<open>n\<close> on every iteration.
\<close>

record Event =
  EvType :: string
  EvReason :: string
  EvMessage :: string
  EvCount :: "32 word"

definition eventLine :: "Event \<Rightarrow> chunk list" where
  "eventLine e =
     (let marker = (if EvType e = ''Warning'' then ''  [WARNING] '' else ''  '')
      in [Str (marker @ EvReason e @ '': '' @ EvMessage e)]
         @ (if 1 <s EvCount e then [Str ('' (x'' @ fmt_d (sint (EvCount e)) @ '')'')] else [])
         @ [Str newline])"

fun eventLoop :: "nat \<Rightarrow> Event list \<Rightarrow> Report \<Rightarrow> Report" where
  "eventLoop n [] r = r"
| "eventLoop n (e # rest) r =
     (if n > 10 then r else eventLoop n rest (WriteString r (eventLine e)))"

definition recentEventsSection :: "(k8s_error + Event list) \<Rightarrow> Report \<Rightarrow> Report" where
  "recentEventsSection eventsResult r =
     (let events = (case eventsResult of Inl err \<Rightarrow> [] | Inr evs \<Rightarrow> evs)
      in if length events > 0 then
           eventLoop (length events) events
             (WriteString r [Str newline, FormatSubHeader ''Recent Events'', Str newline])
         else r)"


section \<open>DNS health (check\_dns\_health)\<close>

datatype ToolResult = SuccessResult "chunk list" | HandleK8sError string k8s_error

text \<open>The calls of the cluster client that the engine makes.\<close>

record ClusterClient =
  ListPods :: "string \<Rightarrow> string \<Rightarrow> k8s_error + Pod list"
  GetService :: "string \<Rightarrow> string \<Rightarrow> k8s_error + Service"
  GetPodLogs :: "string \<Rightarrow> string \<Rightarrow> string \<Rightarrow> int \<Rightarrow> bool \<Rightarrow> string \<Rightarrow> k8s_error + string"

text \<open>\<open>strings.Contains\<close> and \<open>strings.Split(logs, "\n")\<close>.\<close>

fun Contains :: "string \<Rightarrow> string \<Rightarrow> bool" where
  "Contains [] substr = (substr = [])"
| "Contains (c # cs) substr = (HasPrefix (c # cs) substr \<or> Contains cs substr)"

fun SplitLines :: "string \<Rightarrow> string \<Rightarrow> string list" where
  "SplitLines [] cur = [cur]"
| "SplitLines (c # cs) cur = (if c = CHR 10 then cur # SplitLines cs [] else SplitLines cs (cur @ [c]))"

fun prefixScan :: "Pod list \<Rightarrow> Pod list \<Rightarrow> Pod list" where
  "prefixScan [] coreDNSPods = coreDNSPods"
| "prefixScan (pod # rest) coreDNSPods =
     prefixScan rest (if HasPrefix (PodName pod) ''coredns-'' then coreDNSPods @ [pod] else coreDNSPods)"

record DnsReport =
  dnsOut :: "chunk list"
  findingsCount :: int
  healthyPods :: int

definition dnsFinding :: "DnsReport \<Rightarrow> string \<Rightarrow> string \<Rightarrow> DnsReport" where
  "dnsFinding r sev msg =
     r\<lparr>dnsOut := dnsOut r @ [FormatFinding sev msg, Str newline], findingsCount := findingsCount r + 1\<rparr>"

definition dnsPodRow :: "Pod \<Rightarrow> cell list" where
  "dnsPodRow p =
     (case podContainerSummary p of
        (ready, total', restarts) \<Rightarrow>
          [Cell (PodName p), Cell (podPhaseReason p), Cell (fmt_d ready @ ''/'' @ fmt_d total'),
           Cell (fmt_d (sint restarts)), FormatAge (CreationTimestamp p), Cell (NodeName (Spec p))])"

fun readinessLoop :: "Pod \<Rightarrow> PodCondition list \<Rightarrow> DnsReport \<Rightarrow> DnsReport" where
  "readinessLoop p [] r = r"
| "readinessLoop p (cond # rest) r =
     readinessLoop p rest
       (if CondType cond = PodReady \<and> CondStatus cond \<noteq> ConditionTrue then
          dnsFinding r ''CRITICAL''
            (''CoreDNS pod '' @ apostrophe @ PodName p @ apostrophe @ '' is not ready: '' @ CondMessage cond)
        else r)"

fun containerStateLoop :: "Pod \<Rightarrow> ContainerStatus list \<Rightarrow> DnsReport \<Rightarrow> DnsReport" where
  "containerStateLoop p [] r = r"
| "containerStateLoop p (cs # rest) r =
     (let r1 = (if Waiting (State cs) \<noteq> None
                   \<and> WaitingReason (the (Waiting (State cs))) = ''CrashLoopBackOff'' then
                  dnsFinding r ''CRITICAL''
                    (''CoreDNS container '' @ apostrophe @ ContainerName cs @ apostrophe @ '' in pod ''
                     @ apostrophe @ PodName p @ apostrophe @ '' is in CrashLoopBackOff'')
                else r);
          r2 = (if Terminated (LastTerminationState cs) \<noteq> None
                   \<and> TerminatedReason (the (Terminated (LastTerminationState cs))) = ''OOMKilled'' then
                  dnsFinding r1 ''CRITICAL''
                    (''CoreDNS container '' @ apostrophe @ ContainerName cs @ apostrophe @ '' in pod ''
                     @ apostrophe @ PodName p @ apostrophe @ '' was OOMKilled '' @ emDash
                     @ '' increase memory limit'')
                else r1)
      in containerStateLoop p rest r2)"

text \<open>
  One iteration of the detailed pod analysis. \<open>HighRestartThreshold\<close> is a constant of
  package \<open>util\<close>, outside the sources at hand, and is passed in.
\<close>

definition dnsPodFindings :: "int \<Rightarrow> Pod \<Rightarrow> DnsReport \<Rightarrow> DnsReport" where
  "dnsPodFindings HighRestartThreshold p r =
     (let r1 = (if Phase (Status p) \<noteq> PodRunning then
                  dnsFinding r ''CRITICAL''
                    (''CoreDNS pod '' @ apostrophe @ PodName p @ apostrophe @ '' is '' @ Phase (Status p)
                     @ '' (not Running)'')
                else r\<lparr>healthyPods := healthyPods r + 1\<rparr>);
          restarts = snd (snd (podContainerSummary p));
          r2 = (if sint restarts > HighRestartThreshold then
                  dnsFinding r1 ''WARNING''
                    (''CoreDNS pod '' @ apostrophe @ PodName p @ apostrophe @ '' has ''
                     @ fmt_d (sint restarts) @ '' restarts'')
                else if sint restarts > 0 then
                  dnsFinding r1 ''INFO''
                    (''CoreDNS pod '' @ apostrophe @ PodName p @ apostrophe @ '' has ''
                     @ fmt_d (sint restarts) @ '' restart(s)'')
                else r1);
          r3 = readinessLoop p (Conditions (Status p)) r2
      in containerStateLoop p (ContainerStatuses (Status p)) r3)"

fun dnsPodLoop :: "int \<Rightarrow> Pod list \<Rightarrow> DnsReport \<Rightarrow> DnsReport" where
  "dnsPodLoop thr [] r = r"
| "dnsPodLoop thr (p # ps) r = dnsPodLoop thr ps (dnsPodFindings thr p r)"

text \<open>Log analysis: the container whose logs are read, then the scan of its lines.\<close>

fun pickContainer :: "Container list \<Rightarrow> string" where
  "pickContainer [] = []"
| "pickContainer (c # cs) =
     (if Contains (SpecName c) ''coredns'' \<or> Contains (SpecName c) ''dns'' then SpecName c
      else pickContainer cs)"

definition containerNameFor :: "Pod \<Rightarrow> string" where
  "containerNameFor p =
     (let containerName = pickContainer (Containers (Spec p))
      in if containerName = [] \<and> length (Containers (Spec p)) > 0
         then SpecName (hd (Containers (Spec p)))
         else containerName)"

fun countLines :: "string list \<Rightarrow> string \<Rightarrow> int \<Rightarrow> int" where
  "countLines [] pattern cnt = cnt"
| "countLines (line # rest) pattern cnt =
     countLines rest pattern (if Contains line pattern then cnt + 1 else cnt)"

definition errorPatterns0 :: "(string \<times> int) list" where
  "errorPatterns0 =
     [(''SERVFAIL'', 0), (''NXDOMAIN'', 0), (''REFUSED'', 0), (''i/o timeout'', 0),
      (''connection refused'', 0), (''no such host'', 0), (''plugin/errors'', 0), (''ERROR'', 0)]"

fun patternLoop ::
  "string list \<Rightarrow> (string \<times> int) list \<Rightarrow> chunk list \<Rightarrow> int \<Rightarrow> (string \<times> int) list \<times> chunk list \<times> int" where
  "patternLoop logLines [] out podErrors = ([], out, podErrors)"
| "patternLoop logLines ((pattern, cnt) # rest) out podErrors =
     (let c = countLines logLines pattern 0;
          out1 = (if c > 0 then out @ [Str (''    '' @ pattern @ '': '' @ fmt_d c @ '' occurrences'' @ newline)]
                  else out);
          podErrors1 = (if c > 0 then podErrors + c else podErrors)
      in case patternLoop logLines rest out1 podErrors1 of
           (eps, out2, podErrors2) \<Rightarrow> ((pattern, cnt + c) # eps, out2, podErrors2))"

fun logLoop ::
  "ClusterClient \<Rightarrow> Pod list \<Rightarrow> (string \<times> int) list \<Rightarrow> chunk list \<Rightarrow> int
     \<Rightarrow> (string \<times> int) list \<times> chunk list \<times> int" where
  "logLoop client [] eps out totalErrors = (eps, out, totalErrors)"
| "logLoop client (p # ps) eps out totalErrors =
     (case GetPodLogs client ''kube-system'' (PodName p) (containerNameFor p) 500 False ''1h'' of
        Inl logErr \<Rightarrow>
          logLoop client ps eps
            (out @ [Str (''  Pod '' @ apostrophe @ PodName p @ apostrophe @ '': could not fetch logs: ''
                         @ Error logErr @ newline)])
            totalErrors
      | Inr logs \<Rightarrow>
          (if logs = [] then
             logLoop client ps eps
               (out @ [Str (''  Pod '' @ apostrophe @ PodName p @ apostrophe @ '': no logs available'' @ newline)])
               totalErrors
           else
             (case patternLoop (SplitLines logs []) eps
                     (out @ [Str (newline @ ''  Pod '' @ apostrophe @ PodName p @ apostrophe
                                  @ '' log scan (last 1h):'' @ newline)]) 0 of
                (eps1, out1, podErrors) \<Rightarrow>
                  logLoop client ps eps1
                    (if podErrors = 0 then out1 @ [Str (''    No error patterns found in logs.'' @ newline)]
                     else out1)
                    (totalErrors + podErrors))))"

fun logFindingsLoop :: "(string \<times> int) list \<Rightarrow> DnsReport \<Rightarrow> DnsReport" where
  "logFindingsLoop [] r = r"
| "logFindingsLoop ((pattern, cnt) # rest) r =
     (let r1 = (if cnt > 50 \<and> pattern = ''SERVFAIL'' then
                  dnsFinding r ''CRITICAL''
                    (''High SERVFAIL rate: '' @ fmt_d cnt @ '' occurrences '' @ emDash
                     @ '' DNS resolution is failing'')
                else if cnt > 10 \<and> pattern = ''SERVFAIL'' then
                  dnsFinding r ''WARNING''
                    (''Elevated SERVFAIL count: '' @ fmt_d cnt @ '' '' @ emDash
                     @ '' some DNS queries are failing'')
                else r);
          r2 = (if cnt > 100 \<and> pattern = ''NXDOMAIN'' then
                  dnsFinding r1 ''INFO''
                    (''High NXDOMAIN count: '' @ fmt_d cnt @ '' '' @ emDash
                     @ '' check if services have correct DNS names'')
                else r1);
          r3 = (if cnt > 0 \<and> (pattern = ''i/o timeout'' \<or> pattern = ''connection refused'') then
                  dnsFinding r2 ''WARNING''
                    (''Upstream DNS connectivity issues: '' @ fmt_d cnt @ '' '' @ apostrophe @ pattern
                     @ apostrophe @ '' errors'')
                else r2)
      in logFindingsLoop rest r3)"

text \<open>The suggested actions; \<open>actionNum\<close> is threaded through.\<close>

definition dnsActions :: "int \<Rightarrow> nat \<Rightarrow> (string \<times> int) list \<Rightarrow> chunk list" where
  "dnsActions healthy nPods eps =
     (let a1 = (if healthy = 0 then
                  ([Str (fmt_d 1 @ ''. URGENT: No healthy CoreDNS pods. Check CoreDNS deployment and events in kube-system.'' @ newline)], 2::int)
                else ([], 1));
          a2 = (if nPods < 2 then
                  (fst a1 @ [Str (fmt_d (snd a1) @ ''. Scale CoreDNS to at least 2 replicas for high availability.'' @ newline)],
                   snd a1 + 1)
                else a1);
          a3 = (if list_ex (\<lambda>(pattern, cnt). cnt > 10 \<and> pattern = ''SERVFAIL'') eps then
                  (fst a2 @ [Str (fmt_d (snd a2) @ ''. Investigate SERVFAIL errors '' @ emDash
                                  @ '' check upstream DNS configuration in CoreDNS ConfigMap.'' @ newline)],
                   snd a2 + 1)
                else a2);
          a4 = (if list_ex (\<lambda>(pattern, cnt). cnt > 0 \<and> (pattern = ''i/o timeout'' \<or> pattern = ''connection refused'')) eps then
                  (fst a3 @ [Str (fmt_d (snd a3) @ ''. Check upstream DNS server connectivity and network policies affecting kube-system.'' @ newline)],
                   snd a3 + 1)
                else a3)
      in [Str (newline @ ''SUGGESTED ACTIONS:'' @ newline)] @ fst a4
         @ (if snd a4 = 1 then [Str (''  No specific actions needed '' @ emDash @ '' DNS appears healthy.'' @ newline)]
            else []))"

text \<open>The handler from the service check to its end, for a non-empty list of pods.\<close>

definition dnsAnalysis :: "ClusterClient \<Rightarrow> int \<Rightarrow> Pod list \<Rightarrow> chunk list \<Rightarrow> ToolResult" where
  "dnsAnalysis client HighRestartThreshold coreDNSPods sb0 =
     (let sb1 = (case GetService client ''kube-system'' ''kube-dns'' of
                   Inl svcErr \<Rightarrow>
                     sb0 @ [FormatFinding ''WARNING''
                              (''CoreDNS service '' @ apostrophe @ ''kube-dns'' @ apostrophe
                               @ '' not found in kube-system''),
                            Str (newline @ newline)]
                 | Inr coreDNSSvc \<Rightarrow>
                     sb0 @ [FormatKeyValue ''Service''
                              (SvcName coreDNSSvc @ '' (ClusterIP: '' @ ClusterIP coreDNSSvc @ '')''),
                            Str newline]);
          sb2 = sb1 @ [FormatSubHeader ''CoreDNS Pod Status'', Str newline,
                       FormatTable [''POD'', ''STATUS'', ''READY'', ''RESTARTS'', ''AGE'', ''NODE'']
                         (map dnsPodRow coreDNSPods),
                       Str (newline @ ''FINDINGS:'' @ newline)];
          r1 = dnsPodLoop HighRestartThreshold coreDNSPods
                 \<lparr>dnsOut = sb2, findingsCount = 0, healthyPods = 0\<rparr>;
          r2 = (if length coreDNSPods < 2 then
                  dnsFinding r1 ''WARNING''
                    (''Only 1 CoreDNS pod running '' @ emDash
                     @ '' no DNS redundancy. Consider scaling to at least 2 replicas.'')
                else r1);
          sb3 = dnsOut r2 @ [Str newline, FormatSubHeader ''Log Analysis'', Str newline]
      in case logLoop client coreDNSPods errorPatterns0 sb3 0 of
           (eps, sb4, totalErrors) \<Rightarrow>
             (let r3 = logFindingsLoop eps (r2\<lparr>dnsOut := sb4\<rparr>);
                  sb5 = dnsOut r3 @ [Str newline, FormatSubHeader ''Overall DNS Assessment'', Str newline];
                  nPods = fmt_d (int (length coreDNSPods));
                  sb6 = (if findingsCount r3 = 0 then
                           sb5 @ [Str (''  CoreDNS is healthy: '' @ fmt_d (healthyPods r3) @ ''/'' @ nPods
                                       @ '' pods running, no error patterns detected.'' @ newline)]
                         else
                           sb5 @ [Str (''  '' @ fmt_d (findingsCount r3) @ '' issue(s) found. ''
                                       @ fmt_d (healthyPods r3) @ ''/'' @ nPods
                                       @ '' CoreDNS pods running.'' @ newline)]
                               @ (if totalErrors > 0 then
                                    [Str (''  Total error patterns in logs: '' @ fmt_d totalErrors @ newline)]
                                  else []))
              in SuccessResult (sb6 @ dnsActions (healthyPods r3) (length coreDNSPods) eps)))"

text \<open>
  \<open>check_dns_health\<close>: the three discovery strategies, the return on an empty result, and
  the analysis of the pods found.
\<close>

definition check_dns_health :: "ClusterClient \<Rightarrow> int \<Rightarrow> ToolResult" where
  "check_dns_health client HighRestartThreshold =
     (let sb0 = [FormatHeader ''DNS Health Check'', Str (newline @ newline)]
      in case ListPods client ''kube-system'' ''k8s-app=kube-dns'' of
           Inl err \<Rightarrow> HandleK8sError ''listing CoreDNS pods'' err
         | Inr pods1 \<Rightarrow>
            (case (if length pods1 = 0
                   then ListPods client ''kube-system'' ''app.kubernetes.io/name=coredns''
                   else Inr pods1) of
               Inl err \<Rightarrow> HandleK8sError ''listing CoreDNS pods'' err
             | Inr pods2 \<Rightarrow>
                (let coreDNSPods =
                       (if length pods2 = 0 then
                          (case ListPods client ''kube-system'' [] of
                             Inl listErr \<Rightarrow> pods2
                           | Inr allKubeSystemPods \<Rightarrow> prefixScan allKubeSystemPods pods2)
                        else pods2)
                 in if length coreDNSPods = 0 then
                      SuccessResult
                        (sb0 @ [FormatFinding ''CRITICAL'' ''No CoreDNS pods found in kube-system namespace'',
                                Str newline,
                                Str (''  DNS resolution will not work in the cluster.'' @ newline),
                                Str (''  Check if CoreDNS is deployed with: list_pods namespace=kube-system'' @ newline)])
                    else dnsAnalysis client HighRestartThreshold coreDNSPods sb0)))"


section \<open>Network policy audit (analyze\_network\_policies)\<close>

type_synonym PolicyType = string

definition PolicyTypeIngress :: PolicyType where "PolicyTypeIngress = ''Ingress''"
definition PolicyTypeEgress :: PolicyType where "PolicyTypeEgress = ''Egress''"

text \<open>
  The rule types are parameters: the engine only counts the rules and hands each one to
  \<open>describeIngressRule\<close> / \<open>describeEgressRule\<close>, which, like \<open>formatLabelSelector\<close>, are
  helpers outside the sources at hand and are passed in.
\<close>

record LabelSelector =
  MatchLabels :: Labels
  MatchExpressions :: "string list"

record ('i, 'e) NetworkPolicy =
  NpName :: string
  PodSelector :: LabelSelector
  PolicyTypes :: "PolicyType list"
  IngressRules :: "'i list"
  EgressRules :: "'e list"

fun policyTypeLoop :: "PolicyType list \<Rightarrow> bool \<times> bool \<Rightarrow> bool \<times> bool" where
  "policyTypeLoop [] (hasIngress, hasEgress) = (hasIngress, hasEgress)"
| "policyTypeLoop (pt # pts) (hasIngress, hasEgress) =
     policyTypeLoop pts (if pt = PolicyTypeIngress then True else hasIngress,
                         if pt = PolicyTypeEgress then True else hasEgress)"

text \<open>The block repeated in each pass over the policies: the effective directions.\<close>

definition policyDirections :: "('i, 'e) NetworkPolicy \<Rightarrow> bool \<times> bool" where
  "policyDirections np =
     (case policyTypeLoop (PolicyTypes np) (False, False) of
        (hasIngress, hasEgress) \<Rightarrow>
          (if length (PolicyTypes np) = 0 then True else hasIngress, hasEgress))"

text \<open>\<open>strings.Join\<close>.\<close>

fun Join :: "string list \<Rightarrow> string \<Rightarrow> string" where
  "Join [] sep = []"
| "Join [x] sep = x"
| "Join (x # y # ys) sep = x @ sep @ Join (y # ys) sep"

text \<open>\<open>for i, rule := range rules\<close>, writing one ALLOW line per rule; \<open>i\<close> counts from 0.\<close>

fun allowLines :: "string \<Rightarrow> ('r \<Rightarrow> string list) \<Rightarrow> nat \<Rightarrow> 'r list \<Rightarrow> chunk list" where
  "allowLines dir describe i [] = []"
| "allowLines dir describe i (rule # rest) =
     Str (''    '' @ dir @ '' Rule '' @ fmt_d (int i + 1) @ '': ALLOW '' @ Join (describe rule) ''; '' @ newline)
       # allowLines dir describe (Suc i) rest"

definition matrixEntry ::
  "(LabelSelector \<Rightarrow> string) \<Rightarrow> ('i \<Rightarrow> string list) \<Rightarrow> ('e \<Rightarrow> string list)
     \<Rightarrow> ('i, 'e) NetworkPolicy \<Rightarrow> chunk list" where
  "matrixEntry formatLabelSelector describeIngressRule describeEgressRule np =
     (case policyDirections np of
        (hasIngress, hasEgress) \<Rightarrow>
          [Str (newline @ ''  Policy: '' @ NpName np @ newline),
           Str (''    Selects: '' @ formatLabelSelector (PodSelector np) @ newline)]
          @ (if hasIngress then
               (if length (IngressRules np) = 0 then [Str (''    Ingress: DENY ALL'' @ newline)]
                else allowLines ''Ingress'' describeIngressRule 0 (IngressRules np))
             else [])
          @ (if hasEgress then
               (if length (EgressRules np) = 0 then [Str (''    Egress: DENY ALL'' @ newline)]
                else allowLines ''Egress'' describeEgressRule 0 (EgressRules np))
             else []))"

definition allowDenyMatrix ::
  "(LabelSelector \<Rightarrow> string) \<Rightarrow> ('i \<Rightarrow> string list) \<Rightarrow> ('e \<Rightarrow> string list)
     \<Rightarrow> ('i, 'e) NetworkPolicy list \<Rightarrow> chunk list" where
  "allowDenyMatrix formatLabelSelector describeIngressRule describeEgressRule policies =
     [Str newline, FormatSubHeader ''Allow/Deny Matrix'', Str newline]
     @ concat (map (matrixEntry formatLabelSelector describeIngressRule describeEgressRule) policies)"

text \<open>The two deny-all findings, as the findings pass formats them for a policy name.\<close>

definition ingressDenyFinding :: "string \<Rightarrow> chunk" where
  "ingressDenyFinding name =
     FormatFinding ''CRITICAL''
       (''Policy '' @ apostrophe @ name @ apostrophe @ '' has Ingress type but no ingress rules ''
        @ emDash @ '' all inbound traffic DENIED to matched pods'')"

definition egressDenyFinding :: "string \<Rightarrow> chunk" where
  "egressDenyFinding name =
     FormatFinding ''CRITICAL''
       (''Policy '' @ apostrophe @ name @ apostrophe @ '' has Egress type but no egress rules ''
        @ emDash @ '' all outbound traffic DENIED from matched pods (including DNS)'')"

text \<open>The findings pass: one step per policy on the builder and the finding counter.\<close>

definition policyFindings :: "('i, 'e) NetworkPolicy \<Rightarrow> chunk list \<times> int \<Rightarrow> chunk list \<times> int" where
  "policyFindings np st =
     (case policyDirections np of
        (hasIngress, hasEgress) \<Rightarrow>
          (let st1 = (if hasIngress \<and> length (IngressRules np) = 0 then
                        (fst st @ [ingressDenyFinding (NpName np), Str newline], snd st + 1)
                      else st);
               st2 = (if hasEgress \<and> length (EgressRules np) = 0 then
                        (fst st1 @ [egressDenyFinding (NpName np), Str newline], snd st1 + 1)
                      else st1);
               st3 = (if lenLabels (MatchLabels (PodSelector np)) = 0
                         \<and> length (MatchExpressions (PodSelector np)) = 0 then
                        (fst st2 @ [FormatFinding ''INFO''
                                      (''Policy '' @ apostrophe @ NpName np @ apostrophe
                                       @ '' selects ALL pods in namespace''),
                                    Str newline],
                         snd st2 + 1)
                      else st2)
           in st3))"

fun findingsLoop :: "('i, 'e) NetworkPolicy list \<Rightarrow> chunk list \<times> int \<Rightarrow> chunk list \<times> int" where
  "findingsLoop [] st = st"
| "findingsLoop (np # rest) st = findingsLoop rest (policyFindings np st)"

text \<open>
  The FINDINGS block. \<open>uncoveredPods\<close> are the names of the active pods that no policy
  selects, collected earlier in the handler.
\<close>

definition networkPolicyFindings ::
  "string list \<Rightarrow> ('i, 'e) NetworkPolicy list \<Rightarrow> chunk list \<Rightarrow> chunk list" where
  "networkPolicyFindings uncoveredPods policies sb0 =
     (let st0 = (sb0 @ [Str (newline @ ''FINDINGS:'' @ newline)], 0::int);
          st1 = (if length uncoveredPods > 0 then
                   (fst st0
                    @ [FormatFinding ''WARNING''
                         (fmt_d (int (length uncoveredPods)) @ '' pods have no matching network policy ''
                          @ emDash @ '' all traffic allowed by default''),
                       Str newline]
                    @ map (\<lambda>p. Str (''  - '' @ p @ newline)) uncoveredPods,
                    snd st0 + 1)
                 else st0);
          st2 = findingsLoop policies st1
      in if snd st2 = 0 then fst st2 @ [Str (''  Network policies appear well-configured.'' @ newline)]
         else fst st2)"


section \<open>Reading one container status\<close>

text \<open>
  The reason one container status contributes on its own: its waiting reason when that
  is set and non-empty, otherwise its terminated reason when that is set and non-empty.
  It is used to state which status the loops of \<open>podPhaseReason\<close> stop at.
\<close>

definition terminatedReasonOf :: "ContainerStatus \<Rightarrow> string option" where
  "terminatedReasonOf cs =
     (case Terminated (State cs) of
        Some t \<Rightarrow> if TerminatedReason t \<noteq> [] then Some (TerminatedReason t) else None
      | None \<Rightarrow> None)"

definition statusReason :: "ContainerStatus \<Rightarrow> string option" where
  "statusReason cs =
     (case Waiting (State cs) of
        Some w \<Rightarrow> if WaitingReason w \<noteq> [] then Some (WaitingReason w) else terminatedReasonOf cs
      | None \<Rightarrow> terminatedReasonOf cs)"


section \<open>Example cluster objects\<close>

text \<open>Concrete objects on which the theorems below are exercised.\<close>

definition noState :: ContainerState where
  "noState = \<lparr>Waiting = None, Terminated = None\<rparr>"

definition readyStatus :: "string \<Rightarrow> ContainerStatus" where
  "readyStatus name =
     \<lparr>ContainerName = name, State = noState, LastTerminationState = noState, Ready = True,
      RestartCount = 0\<rparr>"

definition waitingStatus :: "string \<Rightarrow> string \<Rightarrow> ContainerStatus" where
  "waitingStatus name reason =
     \<lparr>ContainerName = name,
      State = \<lparr>Waiting = Some \<lparr>WaitingReason = reason\<rparr>, Terminated = None\<rparr>,
      LastTerminationState = noState, Ready = False, RestartCount = 7\<rparr>"

definition terminatedStatus :: "string \<Rightarrow> string \<Rightarrow> ContainerStatus" where
  "terminatedStatus name reason =
     \<lparr>ContainerName = name,
      State = \<lparr>Waiting = None, Terminated = Some \<lparr>TerminatedReason = reason\<rparr>\<rparr>,
      LastTerminationState = noState, Ready = False, RestartCount = 1\<rparr>"

definition examplePod :: "string \<Rightarrow> PodPhase \<Rightarrow> ContainerStatus list \<Rightarrow> Pod" where
  "examplePod name phase statuses =
     \<lparr>PodName = name, CreationTimestamp = 0,
      Spec = \<lparr>NodeName = ''node-1'', Containers = [\<lparr>SpecName = ''app''\<rparr>]\<rparr>,
      Status = \<lparr>Phase = phase, Reason = [], Conditions = [], ContainerStatuses = statuses,
                InitContainerStatuses = []\<rparr>\<rparr>"

text \<open>The request-path scenario: an Ingress for api.example.com/v1 (Prefix) in front of
  service api, whose Endpoints object lists no ready and two not-ready addresses.\<close>

definition apiPath :: HTTPIngressPath where
  "apiPath = \<lparr>Path = ''/v1'', PathTypeOf = Some PathTypePrefix,
              BackendService = Some \<lparr>BackendName = ''api'', PortName = [], PortNumber = 80\<rparr>\<rparr>"

definition apiRule :: IngressRule where
  "apiRule = \<lparr>Host = ''api.example.com'', HTTP = Some [apiPath]\<rparr>"

definition apiIngress :: Ingress where
  "apiIngress = \<lparr>IngName = ''api-ingress'', IngNamespace = ''default'', Rules = [apiRule]\<rparr>"

definition apiService :: Service where
  "apiService = \<lparr>SvcName = ''api'', SvcNamespace = ''default'', ClusterIP = ''10.0.0.10'',
                 Selector = Some [(''app'', ''api'')]\<rparr>"

definition apiEndpoints :: Endpoints where
  "apiEndpoints =
     \<lparr>Subsets = [\<lparr>Addresses = [],
                  NotReadyAddresses =
                    [\<lparr>AddrIP = ''10.1.0.5'', TargetRef = Some \<lparr>RefName = ''api-1''\<rparr>, AddrNodeName = Some ''node-1''\<rparr>,
                     \<lparr>AddrIP = ''10.1.0.6'', TargetRef = Some \<lparr>RefName = ''api-2''\<rparr>, AddrNodeName = None\<rparr>]\<rparr>]\<rparr>"

definition apiCluster :: "string \<Rightarrow> string \<Rightarrow> k8s_error + Endpoints" where
  "apiCluster namespace name =
     (if namespace = ''default'' \<and> name = ''api'' then Inr apiEndpoints
      else Inl (ApiError ''endpoints not found''))"

definition apiHealth :: EndpointHealth where
  "apiHealth =
     \<lparr>ServiceName = ''api'', ServiceNS = ''default'', TotalEndpoints = 2, ReadyCount = 0,
      NotReadyCount = 2, ReadyAddresses = [],
      NotReadyPods = [\<lparr>IP = ''10.1.0.5'', EaPodName = ''api-1'', EaNodeName = ''node-1''\<rparr>,
                      \<lparr>IP = ''10.1.0.6'', EaPodName = ''api-2'', EaNodeName = []\<rparr>]\<rparr>"

definition apiListIngresses :: "string \<Rightarrow> k8s_error + Ingress list" where
  "apiListIngresses namespace = Inr [apiIngress]"

definition apiPods :: "Pod list" where
  "apiPods = [examplePod ''api-1'' PodRunning [waitingStatus ''app'' ''CrashLoopBackOff''],
              examplePod ''api-2'' PodPending []]"

text \<open>Two pods whose names differ only in a dash against a dot.\<close>

definition dashPod :: Pod where "dashPod = examplePod ''web-1'' PodRunning []"
definition dotPod :: Pod where "dotPod = examplePod ''web.1'' PodRunning []"

definition emptyReport :: Report where
  "emptyReport = \<lparr>sb = [], findings = 0, actions = []\<rparr>"

text \<open>A service without selector, and a cluster in which every pod listing is empty.\<close>

definition externalService :: Service where
  "externalService = \<lparr>SvcName = ''legacy-db'', SvcNamespace = ''default'', ClusterIP = ''None'',
                      Selector = None\<rparr>"

definition failingListPods :: "string \<Rightarrow> (string \<times> string) list \<Rightarrow> k8s_error + Pod list" where
  "failingListPods namespace selector = Inl (ApiError ''connection refused'')"

definition emptyClient :: ClusterClient where
  "emptyClient =
     \<lparr>ListPods = (\<lambda>namespace selector. Inr []),
      GetService = (\<lambda>namespace name. Inl (ApiError ''not found'')),
      GetPodLogs = (\<lambda>namespace name container tailLines previous since. Inr [])\<rparr>"

definition proxyOnlyClient :: ClusterClient where
  "proxyOnlyClient =
     emptyClient\<lparr>ListPods := (\<lambda>namespace selector.
        if selector = [] then Inr [examplePod ''kube-proxy-x7k2p'' PodRunning [readyStatus ''kube-proxy'']]
        else Inr [])\<rparr>"

definition corednsClient :: ClusterClient where
  "corednsClient =
     emptyClient\<lparr>ListPods := (\<lambda>namespace selector.
        if selector = ''app.kubernetes.io/name=coredns''
        then Inr [examplePod ''coredns-5d78c9869d-abcde'' PodRunning [readyStatus ''coredns'']]
        else Inr [])\<rparr>"

text \<open>The text chunks of a tool result; an error result carries none.\<close>

fun resultChunks :: "ToolResult \<Rightarrow> chunk list" where
  "resultChunks (SuccessResult cs) = cs"
| "resultChunks (HandleK8sError what err) = []"

definition exampleEvent :: "string \<Rightarrow> Event" where
  "exampleEvent reason =
     \<lparr>EvType = ''Warning'', EvReason = reason, EvMessage = ''probe failed'', EvCount = 3\<rparr>"

definition denyAllPolicy :: "(nat, nat) NetworkPolicy" where
  "denyAllPolicy =
     \<lparr>NpName = ''default-deny'', PodSelector = \<lparr>MatchLabels = None, MatchExpressions = []\<rparr>,
      PolicyTypes = [PolicyTypeIngress], IngressRules = [], EgressRules = []\<rparr>"

text \<open>Stand-ins for the selector and rule formatters, with rules given as port numbers.\<close>

definition exampleSelectorText :: "LabelSelector \<Rightarrow> string" where
  "exampleSelectorText sel = (if lenLabels (MatchLabels sel) = 0 then ''<all pods>'' else ''<some pods>'')"

definition exampleDescribe :: "nat \<Rightarrow> string list" where
  "exampleDescribe port = [''any'', ''port '' @ fmt_d (int port)]"

definition egressOnlyPolicy :: "(nat, nat) NetworkPolicy" where
  "egressOnlyPolicy =
     \<lparr>NpName = ''egress-dns'', PodSelector = \<lparr>MatchLabels = Some [(''app'', ''api'')], MatchExpressions = []\<rparr>,
      PolicyTypes = [PolicyTypeEgress], IngressRules = [], EgressRules = [53]\<rparr>"


section \<open>Properties\<close>

subsection \<open>Pod health\<close>

lemma containersReady_iff:
  "containersReady css \<longleftrightarrow> (\<forall>cs \<in> set css. Ready cs \<and> Waiting (State cs) = None)"
  by (induction css) auto

text \<open>
  C2. A pod is healthy exactly when its phase is Succeeded, or its phase is Running and
  every reported container status is ready and none is waiting. A Pending pod is never
  healthy; a Running pod that reports no container status is healthy.
\<close>

theorem isPodHealthy_iff:
  "(isPodHealthy p \<longleftrightarrow>
      Phase (Status p) = PodSucceeded \<or>
      (Phase (Status p) = PodRunning \<and>
       (\<forall>cs \<in> set (ContainerStatuses (Status p)). Ready cs \<and> Waiting (State cs) = None)))
   \<and> (Phase (Status p) = PodPending \<longrightarrow> \<not> isPodHealthy p)
   \<and> (Phase (Status p) = PodRunning \<and> ContainerStatuses (Status p) = [] \<longrightarrow> isPodHealthy p)"
  by (auto simp: isPodHealthy_def containersReady_iff PodRunning_def PodSucceeded_def PodPending_def)

theorem isPodHealthy_iff_witness:
  "isPodHealthy (examplePod ''web-0'' PodRunning [])
   \<and> isPodHealthy (examplePod ''job-0'' PodSucceeded [waitingStatus ''app'' ''Completed''])
   \<and> \<not> isPodHealthy (examplePod ''web-1'' PodPending [])
   \<and> \<not> isPodHealthy (examplePod ''web-2'' PodRunning
            [readyStatus ''app'', waitingStatus ''sidecar'' ''CrashLoopBackOff''])"
  using isPodHealthy_iff [of "examplePod ''web-0'' PodRunning []"]
    isPodHealthy_iff [of "examplePod ''job-0'' PodSucceeded [waitingStatus ''app'' ''Completed'']"]
    isPodHealthy_iff [of "examplePod ''web-1'' PodPending []"]
    isPodHealthy_iff [of "examplePod ''web-2'' PodRunning
            [readyStatus ''app'', waitingStatus ''sidecar'' ''CrashLoopBackOff'']"]
  by (simp add: examplePod_def waitingStatus_def readyStatus_def noState_def
      PodRunning_def PodPending_def PodSucceeded_def)

subsection \<open>Pod status string\<close>

lemma firstReason_Cons:
  "firstReason (cs # rest) = (case statusReason cs of Some r \<Rightarrow> Some r | None \<Rightarrow> firstReason rest)"
  by (auto simp: statusReason_def terminatedReasonOf_def split: option.splits)

lemma firstReason_none: "(\<forall>c \<in> set css. statusReason c = None) \<Longrightarrow> firstReason css = None"
  by (induction css) (simp_all add: firstReason_Cons del: firstReason.simps(2))

lemma firstReason_first:
  "(\<forall>c \<in> set pre. statusReason c = None) \<Longrightarrow> statusReason cs = Some r \<Longrightarrow>
   firstReason (pre @ cs # post) = Some r"
  by (induction pre) (simp_all add: firstReason_Cons del: firstReason.simps(2))

text \<open>
  C6, as the code has it. The string comes from the first main container status, in list
  order, that has a reason of its own (its waiting reason before its terminated reason);
  when no main container has one, from the first such init container status, prefixed
  with \<open>Init:\<close>; when none has one, it is the pod-level reason if that is non-empty and
  the phase otherwise.
\<close>

theorem podPhaseReason_precedence:
  "((\<forall>c \<in> set pre. statusReason c = None) \<and> statusReason cs = Some r
      \<and> ContainerStatuses (Status p) = pre @ cs # post
     \<longrightarrow> podPhaseReason p = r)
   \<and> ((\<forall>c \<in> set (ContainerStatuses (Status p)). statusReason c = None)
       \<and> (\<forall>c \<in> set pre. statusReason c = None) \<and> statusReason cs = Some r
       \<and> InitContainerStatuses (Status p) = pre @ cs # post
     \<longrightarrow> podPhaseReason p = ''Init:'' @ r)
   \<and> ((\<forall>c \<in> set (ContainerStatuses (Status p)). statusReason c = None)
       \<and> (\<forall>c \<in> set (InitContainerStatuses (Status p)). statusReason c = None)
     \<longrightarrow> podPhaseReason p = (if Reason (Status p) \<noteq> [] then Reason (Status p) else Phase (Status p)))"
  by (simp add: podPhaseReason_def firstReason_first firstReason_none)

theorem podPhaseReason_precedence_witness:
  "podPhaseReason (examplePod ''web'' PodRunning
      [readyStatus ''proxy'', waitingStatus ''app'' ''CrashLoopBackOff'', terminatedStatus ''job'' ''Error''])
   = ''CrashLoopBackOff''
   \<and> podPhaseReason (examplePod ''idle'' PodPending [readyStatus ''proxy'']) = ''Pending''"
  using podPhaseReason_precedence [of "[readyStatus ''proxy'']" "waitingStatus ''app'' ''CrashLoopBackOff''"
      "''CrashLoopBackOff''"
      "examplePod ''web'' PodRunning
      [readyStatus ''proxy'', waitingStatus ''app'' ''CrashLoopBackOff'', terminatedStatus ''job'' ''Error'']"
      "[terminatedStatus ''job'' ''Error'']"]
    podPhaseReason_precedence [of "[]" undefined undefined
      "examplePod ''idle'' PodPending [readyStatus ''proxy'']" "[]"]
  by (simp add: statusReason_def terminatedReasonOf_def examplePod_def readyStatus_def waitingStatus_def
      noState_def PodPending_def)

text \<open>
  A first main container with a terminated reason, followed by one with a waiting
  reason: the terminated reason is returned, not the waiting one.
\<close>

theorem podPhaseReason_waiting_first_counterexample:
  "podPhaseReason (examplePod ''web'' PodRunning
      [terminatedStatus ''migrate'' ''OOMKilled'', waitingStatus ''app'' ''CrashLoopBackOff''])
   = ''OOMKilled''"
  by (simp add: podPhaseReason_def examplePod_def terminatedStatus_def waitingStatus_def)

subsection \<open>Path matching\<close>

lemma HasPrefix_iff: "HasPrefix s p \<longleftrightarrow> prefix p s"
  unfolding HasPrefix_def prefix_def
  by (metis append_eq_conv_conj append_take_drop_id length_append le_add1)

text \<open>
  C5, as the code has it. Exact is equality; Prefix holds exactly when the path starts
  with the pattern; ImplementationSpecific is the same test as Prefix. The pattern \<open>/\<close>
  matches exactly the paths that begin with a slash, and the empty pattern matches
  every path.
\<close>

theorem matchPath_cases:
  "(matchPath pattern path PathTypeExact \<longleftrightarrow> path = pattern)
   \<and> (matchPath pattern path PathTypePrefix \<longleftrightarrow> prefix pattern path)
   \<and> (matchPath pattern path PathTypeImplementationSpecific \<longleftrightarrow> matchPath pattern path PathTypePrefix)
   \<and> (matchPath ''/'' path PathTypePrefix \<longleftrightarrow> (\<exists>rest. path = ''/'' @ rest))
   \<and> matchPath [] path PathTypePrefix"
  by (auto simp: matchPath_def HasPrefix_iff PathTypeExact_def PathTypePrefix_def
      PathTypeImplementationSpecific_def prefix_def)

theorem matchPath_cases_witness:
  "matchPath ''/v1'' ''/v1/users'' PathTypePrefix
   \<and> matchPath ''/v1'' ''/v1/users'' PathTypeImplementationSpecific
   \<and> \<not> matchPath ''/v1'' ''/v1/users'' PathTypeExact
   \<and> matchPath ''/'' ''/v1/users'' PathTypePrefix"
  using matchPath_cases [of "''/v1''" "''/v1/users''"] matchPath_cases [of "''/''" "''/v1/users''"]
  by simp

text \<open>A path without leading slash is not matched by the pattern \<open>/\<close>.\<close>

theorem matchPath_root_counterexample: "\<not> matchPath ''/'' ''v1'' PathTypePrefix"
  by (simp add: matchPath_def HasPrefix_def PathTypeExact_def PathTypePrefix_def)

subsection \<open>Endpoint health\<close>

lemma readyLoop_counts:
  "ReadyCount (readyLoop h as) = ReadyCount h + int (length as)
   \<and> NotReadyCount (readyLoop h as) = NotReadyCount h
   \<and> length (ReadyAddresses (readyLoop h as)) = length (ReadyAddresses h) + length as
   \<and> length (NotReadyPods (readyLoop h as)) = length (NotReadyPods h)"
  by (induction as arbitrary: h) auto

lemma notReadyLoop_counts:
  "NotReadyCount (notReadyLoop h as) = NotReadyCount h + int (length as)
   \<and> ReadyCount (notReadyLoop h as) = ReadyCount h
   \<and> length (NotReadyPods (notReadyLoop h as)) = length (NotReadyPods h) + length as
   \<and> length (ReadyAddresses (notReadyLoop h as)) = length (ReadyAddresses h)"
  by (induction as arbitrary: h) auto

lemma subsetLoop_counts:
  "ReadyCount h = int (length (ReadyAddresses h)) \<Longrightarrow>
   NotReadyCount h = int (length (NotReadyPods h)) \<Longrightarrow>
   ReadyCount (subsetLoop h ss) = int (length (ReadyAddresses (subsetLoop h ss)))
   \<and> NotReadyCount (subsetLoop h ss) = int (length (NotReadyPods (subsetLoop h ss)))"
proof (induction ss arbitrary: h)
  case Nil
  then show ?case by simp
next
  case (Cons s ss)
  let ?h = "notReadyLoop (readyLoop h (Addresses s)) (NotReadyAddresses s)"
  have "ReadyCount ?h = int (length (ReadyAddresses ?h))"
    using Cons.prems by (simp add: readyLoop_counts notReadyLoop_counts)
  moreover have "NotReadyCount ?h = int (length (NotReadyPods ?h))"
    using Cons.prems by (simp add: readyLoop_counts notReadyLoop_counts)
  ultimately show ?case using Cons.IH [of ?h] by simp
qed

text \<open>
  C4. Every EndpointHealth returned has its total equal to the ready count plus the
  not-ready count, both counts non-negative (each is the length of its address list);
  and a result is returned whenever the Endpoints object could be fetched, whatever its
  subsets are.
\<close>

theorem GetServiceEndpointHealth_total:
  "(GetServiceEndpointHealth getEndpoints namespace serviceName = Inr h \<longrightarrow>
      TotalEndpoints h = ReadyCount h + NotReadyCount h
      \<and> 0 \<le> ReadyCount h \<and> 0 \<le> NotReadyCount h
      \<and> ReadyCount h = int (length (ReadyAddresses h))
      \<and> NotReadyCount h = int (length (NotReadyPods h)))
   \<and> (getEndpoints namespace serviceName = Inr ep \<longrightarrow>
        (\<exists>h'. GetServiceEndpointHealth getEndpoints namespace serviceName = Inr h'))"
proof (intro conjI impI)
  assume "getEndpoints namespace serviceName = Inr ep"
  then show "\<exists>h'. GetServiceEndpointHealth getEndpoints namespace serviceName = Inr h'"
    by (simp add: GetServiceEndpointHealth_def Let_def)
next
  assume r: "GetServiceEndpointHealth getEndpoints namespace serviceName = Inr h"
  define h0 where "h0 = \<lparr>ServiceName = serviceName, ServiceNS = namespace, TotalEndpoints = 0,
      ReadyCount = 0, NotReadyCount = 0, ReadyAddresses = [], NotReadyPods = []\<rparr>"
  from r obtain ep' where ep': "getEndpoints namespace serviceName = Inr ep'"
    by (cases "getEndpoints namespace serviceName") (auto simp: GetServiceEndpointHealth_def)
  define h1 where "h1 = subsetLoop h0 (Subsets ep')"
  have h: "h = h1\<lparr>TotalEndpoints := ReadyCount h1 + NotReadyCount h1\<rparr>"
    using r ep' by (simp add: GetServiceEndpointHealth_def Let_def h1_def h0_def)
  have c: "ReadyCount h1 = int (length (ReadyAddresses h1))
           \<and> NotReadyCount h1 = int (length (NotReadyPods h1))"
    unfolding h1_def by (rule subsetLoop_counts) (simp_all add: h0_def)
  show "TotalEndpoints h = ReadyCount h + NotReadyCount h" by (simp add: h)
  show "0 \<le> ReadyCount h" using c by (simp add: h)
  show "0 \<le> NotReadyCount h" using c by (simp add: h)
  show "ReadyCount h = int (length (ReadyAddresses h))" using c by (simp add: h)
  show "NotReadyCount h = int (length (NotReadyPods h))" using c by (simp add: h)
qed

theorem GetServiceEndpointHealth_total_witness:
  "\<exists>h. GetServiceEndpointHealth apiCluster ''default'' ''api'' = Inr h
       \<and> TotalEndpoints h = 2 \<and> ReadyCount h = 0 \<and> NotReadyCount h = 2"
proof -
  have e: "apiCluster ''default'' ''api'' = Inr apiEndpoints"
    by (simp add: apiCluster_def)
  obtain h where h: "GetServiceEndpointHealth apiCluster ''default'' ''api'' = Inr h"
    using GetServiceEndpointHealth_total [of apiCluster "''default''" "''api''" undefined apiEndpoints] e
    by blast
  have "length (ReadyAddresses h) = 0 \<and> length (NotReadyPods h) = 2"
    using h by (auto simp: GetServiceEndpointHealth_def apiCluster_def apiEndpoints_def Let_def)
  then show ?thesis
    using h GetServiceEndpointHealth_total [of apiCluster "''default''" "''api''" h apiEndpoints] by simp
qed

subsection \<open>Services without selector\<close>

text \<open>
  C8, as the code has it. For a service whose selector is absent or empty,
  \<open>GetPodsForService\<close> returns the empty list and no error, whatever the pod listing
  would answer, and the backing-pods section of the service diagnosis leaves the report
  as it was: it writes nothing and counts nothing.
\<close>

theorem GetPodsForService_no_selector:
  "Selector svc = None \<or> Selector svc = Some [] \<Longrightarrow>
   GetPodsForService listPods svc = Inr []
   \<and> backingPodsSection (GetPodsForService listPods svc) r = r"
  by (auto simp: GetPodsForService_def lenLabels_def backingPodsSection_def)

theorem GetPodsForService_no_selector_witness:
  "GetPodsForService failingListPods (externalService\<lparr>Selector := Some []\<rparr>) = Inr []
   \<and> backingPodsSection (GetPodsForService failingListPods (externalService\<lparr>Selector := Some []\<rparr>))
        emptyReport = emptyReport"
  using GetPodsForService_no_selector [of "externalService\<lparr>Selector := Some []\<rparr>" failingListPods emptyReport]
  by (simp add: backingPodsSection_def)

text \<open>For the selector-less service the section writes no text at all, so no
  "N/A" marker either.\<close>

theorem backingPodsSection_marker_counterexample:
  "sb (backingPodsSection (GetPodsForService failingListPods externalService) emptyReport) = []"
  by (simp add: GetPodsForService_def externalService_def backingPodsSection_def emptyReport_def
      lenLabels_def)

subsection \<open>Node identifiers\<close>

lemma idChar_ReplaceAllString: "c \<in> set (ReplaceAllString s) \<Longrightarrow> idChar c"
proof (induction s rule: ReplaceAllString.induct)
  case 1
  then show ?case by simp
next
  case (2 d ds)
  have u: "idChar (CHR ''_'')" by (simp add: idChar_def)
  show ?case
  proof (cases "idChar d")
    case True
    with 2(3) have "c = d \<or> c \<in> set (ReplaceAllString ds)" by simp
    then show ?thesis using True 2(1) by blast
  next
    case False
    with 2(3) have "c = CHR ''_'' \<or> c \<in> set (ReplaceAllString (drop (runeWidth (d # ds) - 1) ds))"
      by simp
    then show ?thesis using False 2(2) u by blast
  qed
qed

text \<open>
  C9, as the code has it. \<open>SafeID\<close> is a function of its argument alone; its result is
  never empty, never starts with a digit, and consists of ASCII letters, digits and
  underscores only. Nothing makes the identifiers of different resources differ.
\<close>

theorem SafeID_wellformed:
  "SafeID s \<noteq> [] \<and> \<not> isDigit (hd (SafeID s)) \<and> (\<forall>c \<in> set (SafeID s). idChar c)"
proof -
  have u: "idChar (CHR ''_'')" "\<not> isDigit (CHR ''_'')"
    by (simp_all add: idChar_def isDigit_def)
  define ident where "ident = ReplaceAllString s"
  have a: "\<forall>c \<in> set ident. idChar c"
    unfolding ident_def using idChar_ReplaceAllString by blast
  consider "ident = []" | "ident \<noteq> []" "isDigit (hd ident)" | "ident \<noteq> []" "\<not> isDigit (hd ident)"
    by blast
  then show ?thesis
  proof cases
    case 1
    then have "SafeID s = ''_''" by (simp add: SafeID_def ident_def)
    then show ?thesis using u by simp
  next
    case 2
    then have "SafeID s = CHR ''_'' # ident" by (simp add: SafeID_def ident_def)
    then show ?thesis using u a by simp
  next
    case 3
    then have "SafeID s = ident" by (simp add: SafeID_def ident_def)
    then show ?thesis using 3 a by simp
  qed
qed

theorem SafeID_wellformed_witness:
  "SafeID ''pod_web-1'' = ''pod_web_1'' \<and> SafeID ''9lives'' = ''_9lives'' \<and> SafeID [] = ''_''"
  using SafeID_wellformed [of "''pod_web-1''"] SafeID_wellformed [of "''9lives''"]
    SafeID_wellformed [of "[]"]
  by (simp add: SafeID_def idChar_def isDigit_def runeWidth_def)

text \<open>Two pods with different names get the same node identifier in one flowchart.\<close>

theorem flowchart_duplicate_id_counterexample:
  "PodName dashPod \<noteq> PodName dotPod
   \<and> lines (podNodesLoop (NewFlowchart DirectionTB) [dashPod, dotPod])
     = [''    pod_web_1(web-1)'', ''    svc --> pod_web_1'',
        ''    pod_web_1(web.1)'', ''    svc --> pod_web_1'']"
  by (simp add: dashPod_def dotPod_def examplePod_def NewFlowchart_def AddNode_def AddEdge_def AddStyle_def
      SafeID_def idChar_def isDigit_def runeWidth_def Let_def nodeShape_def edgeArrow_def EscapeLabel_def
      ShapeRound_def ShapeStadium_def ShapeCircle_def ShapeDiamond_def ShapeHex_def ShapeTrapAlt_def ShapeCyl_def
      EdgeSolid_def EdgeDotted_def EdgeThick_def severityStyles_def SeverityCritical_def SeverityHealthy_def
      SeverityWarning_def SeverityInfo_def isPodHealthy_def PodRunning_def)

subsection \<open>Recent events of a service\<close>

lemma WriteString_WriteString: "WriteString (WriteString r a) b = WriteString r (a @ b)"
  by (simp add: WriteString_def)

lemma eventLoop_few: "n \<le> 10 \<Longrightarrow> eventLoop n evs r = WriteString r (concat (map eventLine evs))"
  by (induction evs arbitrary: r) (simp_all add: WriteString_WriteString, simp add: WriteString_def)

lemma eventLoop_many: "n > 10 \<Longrightarrow> eventLoop n evs r = r"
  by (cases evs) simp_all

text \<open>
  C10. With more than ten events the section consists of its header alone; with one to
  ten events the header is followed by the line of every event, in order.
\<close>

theorem recentEventsSection_cases:
  "(length events > 10 \<longrightarrow>
      recentEventsSection (Inr events) r
        = WriteString r [Str newline, FormatSubHeader ''Recent Events'', Str newline])
   \<and> (1 \<le> length events \<and> length events \<le> 10 \<longrightarrow>
      recentEventsSection (Inr events) r
        = WriteString r ([Str newline, FormatSubHeader ''Recent Events'', Str newline]
                         @ concat (map eventLine events)))"
  by (simp add: recentEventsSection_def eventLoop_few eventLoop_many WriteString_WriteString)

theorem recentEventsSection_cases_witness:
  "sb (recentEventsSection (Inr (replicate 11 (exampleEvent ''Unhealthy''))) emptyReport)
     = [Str newline, FormatSubHeader ''Recent Events'', Str newline]
   \<and> sb (recentEventsSection (Inr [exampleEvent ''Unhealthy'', exampleEvent ''BackOff'']) emptyReport)
     = [Str newline, FormatSubHeader ''Recent Events'', Str newline,
        Str ''  [WARNING] Unhealthy: probe failed'', Str '' (x3)'', Str newline,
        Str ''  [WARNING] BackOff: probe failed'', Str '' (x3)'', Str newline]"
  using recentEventsSection_cases [of "replicate 11 (exampleEvent ''Unhealthy'')" emptyReport]
    recentEventsSection_cases [of "[exampleEvent ''Unhealthy'', exampleEvent ''BackOff'']" emptyReport]
  by (simp add: WriteString_def emptyReport_def eventLine_def exampleEvent_def fmt_d_def natToDec.simps
      word_sless_alt)


subsection \<open>CoreDNS discovery\<close>

lemma prefixScan_filter:
  "prefixScan allPods acc = acc @ filter (\<lambda>p. HasPrefix (PodName p) ''coredns-'') allPods"
  by (induction allPods arbitrary: acc) simp_all

text \<open>
  C7, as the code has it. The three strategies are tried in order and the first
  non-empty result is analysed. When the two selectors find nothing and the listing of
  kube-system fails or holds no pod named \<open>coredns-...\<close>, the result is the header, one
  CRITICAL finding that no CoreDNS pods were found, and two lines of advice, and nothing
  else: no log analysis and no overall assessment section.
\<close>

theorem check_dns_health_discovery:
  "(ListPods client ''kube-system'' ''k8s-app=kube-dns'' = Inr []
      \<and> ListPods client ''kube-system'' ''app.kubernetes.io/name=coredns'' = Inr []
      \<and> (\<forall>allPods. ListPods client ''kube-system'' [] = Inr allPods
             \<longrightarrow> (\<forall>p \<in> set allPods. \<not> HasPrefix (PodName p) ''coredns-''))
     \<longrightarrow> check_dns_health client thr
           = SuccessResult
               [FormatHeader ''DNS Health Check'', Str (newline @ newline),
                FormatFinding ''CRITICAL'' ''No CoreDNS pods found in kube-system namespace'',
                Str newline,
                Str (''  DNS resolution will not work in the cluster.'' @ newline),
                Str (''  Check if CoreDNS is deployed with: list_pods namespace=kube-system'' @ newline)])
   \<and> (ListPods client ''kube-system'' ''k8s-app=kube-dns'' = Inr pods \<and> pods \<noteq> []
     \<longrightarrow> check_dns_health client thr
           = dnsAnalysis client thr pods [FormatHeader ''DNS Health Check'', Str (newline @ newline)])
   \<and> (ListPods client ''kube-system'' ''k8s-app=kube-dns'' = Inr []
      \<and> ListPods client ''kube-system'' ''app.kubernetes.io/name=coredns'' = Inr pods \<and> pods \<noteq> []
     \<longrightarrow> check_dns_health client thr
           = dnsAnalysis client thr pods [FormatHeader ''DNS Health Check'', Str (newline @ newline)])
   \<and> (ListPods client ''kube-system'' ''k8s-app=kube-dns'' = Inr []
      \<and> ListPods client ''kube-system'' ''app.kubernetes.io/name=coredns'' = Inr []
      \<and> ListPods client ''kube-system'' [] = Inr allPods
      \<and> filter (\<lambda>p. HasPrefix (PodName p) ''coredns-'') allPods \<noteq> []
     \<longrightarrow> check_dns_health client thr
           = dnsAnalysis client thr (filter (\<lambda>p. HasPrefix (PodName p) ''coredns-'') allPods)
               [FormatHeader ''DNS Health Check'', Str (newline @ newline)])"
proof (intro conjI impI)
  assume a: "ListPods client ''kube-system'' ''k8s-app=kube-dns'' = Inr []
      \<and> ListPods client ''kube-system'' ''app.kubernetes.io/name=coredns'' = Inr []
      \<and> (\<forall>allPods. ListPods client ''kube-system'' [] = Inr allPods
             \<longrightarrow> (\<forall>p \<in> set allPods. \<not> HasPrefix (PodName p) ''coredns-''))"
  show "check_dns_health client thr
           = SuccessResult
               [FormatHeader ''DNS Health Check'', Str (newline @ newline),
                FormatFinding ''CRITICAL'' ''No CoreDNS pods found in kube-system namespace'',
                Str newline,
                Str (''  DNS resolution will not work in the cluster.'' @ newline),
                Str (''  Check if CoreDNS is deployed with: list_pods namespace=kube-system'' @ newline)]"
  proof (cases "ListPods client ''kube-system'' []")
    case (Inl e)
    then show ?thesis using a by (simp add: check_dns_health_def)
  next
    case (Inr allPods)
    with a have "filter (\<lambda>p. HasPrefix (PodName p) ''coredns-'') allPods = []"
      by (simp add: filter_empty_conv)
    then show ?thesis using a Inr by (simp add: check_dns_health_def prefixScan_filter)
  qed
next
  assume "ListPods client ''kube-system'' ''k8s-app=kube-dns'' = Inr pods \<and> pods \<noteq> []"
  then show "check_dns_health client thr
           = dnsAnalysis client thr pods [FormatHeader ''DNS Health Check'', Str (newline @ newline)]"
    by (simp add: check_dns_health_def)
next
  assume "ListPods client ''kube-system'' ''k8s-app=kube-dns'' = Inr []
      \<and> ListPods client ''kube-system'' ''app.kubernetes.io/name=coredns'' = Inr pods \<and> pods \<noteq> []"
  then show "check_dns_health client thr
           = dnsAnalysis client thr pods [FormatHeader ''DNS Health Check'', Str (newline @ newline)]"
    by (simp add: check_dns_health_def)
next
  assume "ListPods client ''kube-system'' ''k8s-app=kube-dns'' = Inr []
      \<and> ListPods client ''kube-system'' ''app.kubernetes.io/name=coredns'' = Inr []
      \<and> ListPods client ''kube-system'' [] = Inr allPods
      \<and> filter (\<lambda>p. HasPrefix (PodName p) ''coredns-'') allPods \<noteq> []"
  then show "check_dns_health client thr
           = dnsAnalysis client thr (filter (\<lambda>p. HasPrefix (PodName p) ''coredns-'') allPods)
               [FormatHeader ''DNS Health Check'', Str (newline @ newline)]"
    by (simp add: check_dns_health_def prefixScan_filter)
qed

theorem check_dns_health_discovery_witness:
  "check_dns_health proxyOnlyClient 5
     = SuccessResult
         [FormatHeader ''DNS Health Check'', Str (newline @ newline),
          FormatFinding ''CRITICAL'' ''No CoreDNS pods found in kube-system namespace'',
          Str newline,
          Str (''  DNS resolution will not work in the cluster.'' @ newline),
          Str (''  Check if CoreDNS is deployed with: list_pods namespace=kube-system'' @ newline)]
   \<and> check_dns_health corednsClient 5
     = dnsAnalysis corednsClient 5
         [examplePod ''coredns-5d78c9869d-abcde'' PodRunning [readyStatus ''coredns'']]
         [FormatHeader ''DNS Health Check'', Str (newline @ newline)]"
  using check_dns_health_discovery [of proxyOnlyClient 5 undefined undefined]
    check_dns_health_discovery [of corednsClient 5 "[examplePod ''coredns-5d78c9869d-abcde'' PodRunning [readyStatus ''coredns'']]" undefined]
  by (simp add: proxyOnlyClient_def corednsClient_def emptyClient_def examplePod_def HasPrefix_def)

text \<open>With no CoreDNS pod in the cluster the report has no overall assessment section.\<close>

theorem check_dns_health_assessment_counterexample:
  "FormatSubHeader ''Overall DNS Assessment'' \<notin> set (resultChunks (check_dns_health emptyClient 5))"
  by (simp add: check_dns_health_def emptyClient_def)

subsection \<open>Deny-all network policies\<close>

lemma policyTypeLoop_eq:
  "policyTypeLoop pts (a, b) = (a \<or> PolicyTypeIngress \<in> set pts, b \<or> PolicyTypeEgress \<in> set pts)"
  by (induction pts arbitrary: a b) auto

lemma policyDirections_eq:
  "policyDirections np
     = (PolicyTypeIngress \<in> set (PolicyTypes np) \<or> PolicyTypes np = [],
        PolicyTypeEgress \<in> set (PolicyTypes np))"
  by (auto simp: policyDirections_def policyTypeLoop_eq)

lemma ingressDenyFinding_inj: "ingressDenyFinding a = ingressDenyFinding b \<longleftrightarrow> a = b"
  by (simp add: ingressDenyFinding_def)

lemma ingress_not_egress: "ingressDenyFinding a \<noteq> egressDenyFinding b"
proof
  assume "ingressDenyFinding a = egressDenyFinding b"
  then have "''Policy '' @ apostrophe @ a @ apostrophe @ '' has Ingress type but no ingress rules ''
        @ emDash @ '' all inbound traffic DENIED to matched pods''
      = ''Policy '' @ apostrophe @ b @ apostrophe @ '' has Egress type but no egress rules ''
        @ emDash @ '' all outbound traffic DENIED from matched pods (including DNS)''"
    by (simp add: ingressDenyFinding_def egressDenyFinding_def)
  then have "last (''Policy '' @ apostrophe @ a @ apostrophe @ '' has Ingress type but no ingress rules ''
        @ emDash @ '' all inbound traffic DENIED to matched pods'')
      = last (''Policy '' @ apostrophe @ b @ apostrophe @ '' has Egress type but no egress rules ''
        @ emDash @ '' all outbound traffic DENIED from matched pods (including DNS)'')"
    by (rule arg_cong)
  then show False by (simp add: apostrophe_def emDash_def)
qed

lemma policyFindings_ingress_iff:
  "ingressDenyFinding name \<in> set (fst (policyFindings np st))
   \<longleftrightarrow> ingressDenyFinding name \<in> set (fst st)
       \<or> (NpName np = name \<and> (PolicyTypeIngress \<in> set (PolicyTypes np) \<or> PolicyTypes np = [])
            \<and> IngressRules np = [])"
proof -
  have i: "ingressDenyFinding name \<noteq> FormatFinding ''INFO'' m" for m
    by (simp add: ingressDenyFinding_def)
  have s: "ingressDenyFinding name \<noteq> Str t" for t
    by (simp add: ingressDenyFinding_def)
  show ?thesis
    using ingress_not_egress [of name "NpName np"] i s
    by (cases st) (auto simp: policyFindings_def policyDirections_eq Let_def ingressDenyFinding_inj)
qed


lemma findingsLoop_ingress_iff:
  "ingressDenyFinding name \<in> set (fst (findingsLoop policies st))
   \<longleftrightarrow> ingressDenyFinding name \<in> set (fst st)
       \<or> (\<exists>np \<in> set policies. NpName np = name
             \<and> (PolicyTypeIngress \<in> set (PolicyTypes np) \<or> PolicyTypes np = [])
             \<and> IngressRules np = [])"
proof (induction policies arbitrary: st)
  case Nil
  then show ?case by simp
next
  case (Cons q rest)
  show ?case
    using Cons [of "policyFindings q st"] policyFindings_ingress_iff [of name q st]
    by auto
qed

lemma networkPolicyFindings_ingress_iff:
  "ingressDenyFinding name \<in> set (networkPolicyFindings uncoveredPods policies sb0)
   \<longleftrightarrow> ingressDenyFinding name \<in> set sb0
       \<or> (\<exists>np \<in> set policies. NpName np = name
             \<and> (PolicyTypeIngress \<in> set (PolicyTypes np) \<or> PolicyTypes np = [])
             \<and> IngressRules np = [])"
proof -
  have w: "ingressDenyFinding name \<noteq> FormatFinding ''WARNING'' m" for m
    by (simp add: ingressDenyFinding_def)
  have s: "ingressDenyFinding name \<noteq> Str t" for t
    by (simp add: ingressDenyFinding_def)
  show ?thesis
    using w s
    by (auto simp: networkPolicyFindings_def Let_def findingsLoop_ingress_iff)
qed

lemma allowLines_shape:
  "c \<in> set (allowLines dir describe i rules) \<Longrightarrow> \<exists>t. c = Str (''    '' @ dir @ '' Rule '' @ t)"
  by (induction rules arbitrary: i) auto

lemma matrixEntry_deny:
  "PolicyTypeIngress \<in> set (PolicyTypes np) \<or> PolicyTypes np = [] \<Longrightarrow> IngressRules np = [] \<Longrightarrow>
   Str (''    Ingress: DENY ALL'' @ newline) \<in> set (matrixEntry fls dir der np)"
  by (auto simp: matrixEntry_def policyDirections_eq)

lemma matrixEntry_no_allow:
  assumes "IngressRules np = []" "Str s \<in> set (matrixEntry fls dir der np)"
  shows "\<not> prefix ''    Ingress Rule'' s"
proof -
  have "Str s \<in> set (allowLines ''Egress'' der 0 (EgressRules np)) \<Longrightarrow> ?thesis"
    using allowLines_shape [of "Str s" "''Egress''" der 0 "EgressRules np"] by auto
  then show ?thesis
    using assms
    by (auto simp: matrixEntry_def policyDirections_eq newline_def split: if_splits)
qed

lemma matrixEntry_absent_ingress:
  assumes "PolicyTypes np \<noteq> []" "PolicyTypeIngress \<notin> set (PolicyTypes np)"
    "Str s \<in> set (matrixEntry fls dir der np)"
  shows "\<not> prefix ''    Ingress'' s"
proof -
  have "Str s \<in> set (allowLines ''Egress'' der 0 (EgressRules np)) \<Longrightarrow> ?thesis"
    using allowLines_shape [of "Str s" "''Egress''" der 0 "EgressRules np"] by auto
  then show ?thesis
    using assms
    by (auto simp: matrixEntry_def policyDirections_eq newline_def split: if_splits)
qed

lemma matrixEntry_absent_egress:
  assumes "PolicyTypeEgress \<notin> set (PolicyTypes np)" "Str s \<in> set (matrixEntry fls dir der np)"
  shows "\<not> prefix ''    Egress'' s"
proof -
  have "Str s \<in> set (allowLines ''Ingress'' dir 0 (IngressRules np)) \<Longrightarrow> ?thesis"
    using allowLines_shape [of "Str s" "''Ingress''" dir 0 "IngressRules np"] by auto
  then show ?thesis
    using assms
    by (auto simp: matrixEntry_def policyDirections_eq newline_def split: if_splits)
qed

lemma policyFindings_absent_egress:
  "PolicyTypeEgress \<notin> set (PolicyTypes np) \<Longrightarrow>
   egressDenyFinding (NpName np) \<notin> set (fst (policyFindings np ([], n)))"
  by (auto simp: policyFindings_def policyDirections_eq Let_def ingressDenyFinding_def egressDenyFinding_def)

text \<open>
  C3. A policy of the audited list whose policy types contain \<open>Ingress\<close>, or are empty,
  and that has no ingress rule gets the finding of severity CRITICAL whose text says
  that the policy has Ingress type but no ingress rules and that all inbound traffic is
  DENIED to matched pods, and the line \<open>Ingress: DENY ALL\<close> in the allow/deny matrix,
  and no ALLOW line for ingress. For a direction whose type is absent the engine writes
  no line for that direction at all, neither DENY ALL nor ALLOW, and no deny-all finding
  for it, even when that direction has no rules. On an empty builder the findings block
  holds the ingress deny-all finding for a name exactly when a policy of that name is
  typed for ingress, explicitly or by default, and has no ingress rule.
\<close>

theorem deny_all_ingress_classified:
  "(np \<in> set policies
      \<and> (''Ingress'' \<in> set (PolicyTypes np) \<or> PolicyTypes np = []) \<and> IngressRules np = []
     \<longrightarrow> FormatFinding ''CRITICAL''
           (''Policy '' @ [CHR 39] @ NpName np @ [CHR 39] @ '' has Ingress type but no ingress rules ''
            @ [CHR 226, CHR 128, CHR 148] @ '' all inbound traffic DENIED to matched pods'')
           \<in> set (networkPolicyFindings uncoveredPods policies sb0)
         \<and> Str (''    Ingress: DENY ALL'' @ [CHR 10]) \<in> set (matrixEntry fls dir der np)
         \<and> set (matrixEntry fls dir der np) \<subseteq> set (allowDenyMatrix fls dir der policies)
         \<and> (\<forall>s. Str s \<in> set (matrixEntry fls dir der np) \<longrightarrow> \<not> prefix ''    Ingress Rule'' s))
   \<and> (PolicyTypes np \<noteq> [] \<and> ''Ingress'' \<notin> set (PolicyTypes np)
     \<longrightarrow> (\<forall>s. Str s \<in> set (matrixEntry fls dir der np) \<longrightarrow> \<not> prefix ''    Ingress'' s)
         \<and> (\<forall>name. FormatFinding ''CRITICAL''
               (''Policy '' @ [CHR 39] @ name @ [CHR 39] @ '' has Ingress type but no ingress rules ''
                @ [CHR 226, CHR 128, CHR 148] @ '' all inbound traffic DENIED to matched pods'')
               \<notin> set (fst (policyFindings np ([], n)))))
   \<and> (''Egress'' \<notin> set (PolicyTypes np)
     \<longrightarrow> (\<forall>s. Str s \<in> set (matrixEntry fls dir der np) \<longrightarrow> \<not> prefix ''    Egress'' s)
         \<and> FormatFinding ''CRITICAL''
             (''Policy '' @ [CHR 39] @ NpName np @ [CHR 39] @ '' has Egress type but no egress rules ''
              @ [CHR 226, CHR 128, CHR 148]
              @ '' all outbound traffic DENIED from matched pods (including DNS)'')
             \<notin> set (fst (policyFindings np ([], n))))
   \<and> (FormatFinding ''CRITICAL''
         (''Policy '' @ [CHR 39] @ name @ [CHR 39] @ '' has Ingress type but no ingress rules ''
          @ [CHR 226, CHR 128, CHR 148] @ '' all inbound traffic DENIED to matched pods'')
         \<in> set (networkPolicyFindings uncoveredPods policies [])
       \<longleftrightarrow> (\<exists>q \<in> set policies. NpName q = name
               \<and> (''Ingress'' \<in> set (PolicyTypes q) \<or> PolicyTypes q = []) \<and> IngressRules q = []))"
proof -
  have I: "FormatFinding ''CRITICAL''
           (''Policy '' @ [CHR 39] @ x @ [CHR 39] @ '' has Ingress type but no ingress rules ''
            @ [CHR 226, CHR 128, CHR 148] @ '' all inbound traffic DENIED to matched pods'')
         = ingressDenyFinding x" for x
    by (simp add: ingressDenyFinding_def apostrophe_def emDash_def)
  have E: "FormatFinding ''CRITICAL''
             (''Policy '' @ [CHR 39] @ x @ [CHR 39] @ '' has Egress type but no egress rules ''
              @ [CHR 226, CHR 128, CHR 148]
              @ '' all outbound traffic DENIED from matched pods (including DNS)'')
         = egressDenyFinding x" for x
    by (simp add: egressDenyFinding_def apostrophe_def emDash_def)
  have N: "[CHR 10] = newline" by (simp add: newline_def)
  have P1: "np \<in> set policies
      \<and> (''Ingress'' \<in> set (PolicyTypes np) \<or> PolicyTypes np = []) \<and> IngressRules np = []
     \<longrightarrow> ingressDenyFinding (NpName np) \<in> set (networkPolicyFindings uncoveredPods policies sb0)
         \<and> Str (''    Ingress: DENY ALL'' @ newline) \<in> set (matrixEntry fls dir der np)
         \<and> set (matrixEntry fls dir der np) \<subseteq> set (allowDenyMatrix fls dir der policies)
         \<and> (\<forall>s. Str s \<in> set (matrixEntry fls dir der np) \<longrightarrow> \<not> prefix ''    Ingress Rule'' s)"
  proof (intro impI conjI allI)
    assume "np \<in> set policies
      \<and> (''Ingress'' \<in> set (PolicyTypes np) \<or> PolicyTypes np = []) \<and> IngressRules np = []"
    then have a: "np \<in> set policies
      \<and> (PolicyTypeIngress \<in> set (PolicyTypes np) \<or> PolicyTypes np = []) \<and> IngressRules np = []"
      by (simp add: PolicyTypeIngress_def)
    show "ingressDenyFinding (NpName np) \<in> set (networkPolicyFindings uncoveredPods policies sb0)"
      using a networkPolicyFindings_ingress_iff [of "NpName np" uncoveredPods policies sb0] by blast
    show "Str (''    Ingress: DENY ALL'' @ newline) \<in> set (matrixEntry fls dir der np)"
      using a matrixEntry_deny by blast
    show "set (matrixEntry fls dir der np) \<subseteq> set (allowDenyMatrix fls dir der policies)"
      using a by (auto simp: allowDenyMatrix_def)
    fix s assume "Str s \<in> set (matrixEntry fls dir der np)"
    then show "\<not> prefix ''    Ingress Rule'' s"
      using a matrixEntry_no_allow by blast
  qed
  have P2: "PolicyTypes np \<noteq> [] \<and> ''Ingress'' \<notin> set (PolicyTypes np)
     \<longrightarrow> (\<forall>s. Str s \<in> set (matrixEntry fls dir der np) \<longrightarrow> \<not> prefix ''    Ingress'' s)
         \<and> (\<forall>name. ingressDenyFinding name \<notin> set (fst (policyFindings np ([], n))))"
  proof (intro impI conjI allI)
    assume "PolicyTypes np \<noteq> [] \<and> ''Ingress'' \<notin> set (PolicyTypes np)"
    then have a: "PolicyTypes np \<noteq> [] \<and> PolicyTypeIngress \<notin> set (PolicyTypes np)"
      by (simp add: PolicyTypeIngress_def)
    fix name'
    show "ingressDenyFinding name' \<notin> set (fst (policyFindings np ([], n)))"
      using a policyFindings_ingress_iff [of name' np "([], n)"] by simp
  next
    assume "PolicyTypes np \<noteq> [] \<and> ''Ingress'' \<notin> set (PolicyTypes np)"
    then have a: "PolicyTypes np \<noteq> [] \<and> PolicyTypeIngress \<notin> set (PolicyTypes np)"
      by (simp add: PolicyTypeIngress_def)
    fix s assume "Str s \<in> set (matrixEntry fls dir der np)"
    then show "\<not> prefix ''    Ingress'' s"
      using a matrixEntry_absent_ingress by blast
  qed
  have P3: "''Egress'' \<notin> set (PolicyTypes np)
     \<longrightarrow> (\<forall>s. Str s \<in> set (matrixEntry fls dir der np) \<longrightarrow> \<not> prefix ''    Egress'' s)
         \<and> egressDenyFinding (NpName np) \<notin> set (fst (policyFindings np ([], n)))"
  proof (intro impI conjI allI)
    assume "''Egress'' \<notin> set (PolicyTypes np)"
    then have a: "PolicyTypeEgress \<notin> set (PolicyTypes np)"
      by (simp add: PolicyTypeEgress_def)
    show "egressDenyFinding (NpName np) \<notin> set (fst (policyFindings np ([], n)))"
      using a policyFindings_absent_egress by blast
    fix s assume "Str s \<in> set (matrixEntry fls dir der np)"
    then show "\<not> prefix ''    Egress'' s"
      using a matrixEntry_absent_egress by blast
  qed
  have P4: "ingressDenyFinding name \<in> set (networkPolicyFindings uncoveredPods policies [])
       \<longleftrightarrow> (\<exists>q \<in> set policies. NpName q = name
               \<and> (''Ingress'' \<in> set (PolicyTypes q) \<or> PolicyTypes q = []) \<and> IngressRules q = [])"
    using networkPolicyFindings_ingress_iff [of name uncoveredPods policies "[]"]
    by (simp add: PolicyTypeIngress_def)
  show ?thesis
    unfolding I E N
    by (intro conjI P1 P2 P3 P4)
qed

theorem deny_all_ingress_classified_witness:
  "networkPolicyFindings [] [egressOnlyPolicy, denyAllPolicy] []
     = [Str ([CHR 10] @ ''FINDINGS:'' @ [CHR 10]),
        FormatFinding ''CRITICAL''
          (''Policy '' @ [CHR 39] @ ''default-deny'' @ [CHR 39] @ '' has Ingress type but no ingress rules ''
           @ [CHR 226, CHR 128, CHR 148] @ '' all inbound traffic DENIED to matched pods''),
        Str [CHR 10],
        FormatFinding ''INFO''
          (''Policy '' @ [CHR 39] @ ''default-deny'' @ [CHR 39] @ '' selects ALL pods in namespace''),
        Str [CHR 10]]
   \<and> matrixEntry exampleSelectorText exampleDescribe exampleDescribe denyAllPolicy
     = [Str ([CHR 10] @ ''  Policy: default-deny'' @ [CHR 10]),
        Str (''    Selects: <all pods>'' @ [CHR 10]),
        Str (''    Ingress: DENY ALL'' @ [CHR 10])]
   \<and> matrixEntry exampleSelectorText exampleDescribe exampleDescribe egressOnlyPolicy
     = [Str ([CHR 10] @ ''  Policy: egress-dns'' @ [CHR 10]),
        Str (''    Selects: <some pods>'' @ [CHR 10]),
        Str (''    Egress Rule 1: ALLOW any; port 53'' @ [CHR 10])]"
  using deny_all_ingress_classified [of denyAllPolicy "[egressOnlyPolicy, denyAllPolicy]" "[]" "[]"
      exampleSelectorText exampleDescribe exampleDescribe 0 "''default-deny''"]
    deny_all_ingress_classified [of egressOnlyPolicy "[egressOnlyPolicy, denyAllPolicy]" "[]" "[]"
      exampleSelectorText exampleDescribe exampleDescribe 0 "''egress-dns''"]
  by (simp add: networkPolicyFindings_def policyFindings_def policyDirections_def matrixEntry_def
      denyAllPolicy_def egressOnlyPolicy_def PolicyTypeIngress_def PolicyTypeEgress_def
      ingressDenyFinding_def egressDenyFinding_def apostrophe_def emDash_def newline_def
      exampleSelectorText_def exampleDescribe_def lenLabels_def fmt_d_def natToDec.simps Let_def)

subsection \<open>Request path with endpoints that are not ready\<close>

lemma SafeID_pod: "SafeID (''pod_'' @ name) = ''pod_'' @ ReplaceAllString name"
  by (simp add: SafeID_def idChar_def isDigit_def)

lemma AddStyle_styles:
  "l \<in> set (styles (AddStyle fc nodeID sev)) \<Longrightarrow>
   l \<in> set (styles fc) \<or> (\<exists>t. l = ''    style '' @ nodeID @ t)"
  by (auto simp: AddStyle_def split: option.splits)

lemma podNodesLoop_styles:
  "l \<in> set (styles (podNodesLoop fc pods)) \<Longrightarrow>
   l \<in> set (styles fc) \<or> (\<exists>t. l = ''    style pod_'' @ t)"
proof (induction pods arbitrary: fc)
  case Nil
  then show ?case by simp
next
  case (Cons p ps)
  let ?podID = "SafeID (''pod_'' @ PodName p)"
  let ?fc2 = "AddEdge (AddNode fc ?podID
      (if length (PodName p) > 30 then take 30 (PodName p) @ ''...'' else PodName p) ShapeRound)
      ''svc'' ?podID [] EdgeSolid"
  let ?fc3 = "if \<not> isPodHealthy p then AddStyle ?fc2 ?podID SeverityCritical
              else AddStyle ?fc2 ?podID SeverityHealthy"
  have step: "podNodesLoop fc (p # ps) = podNodesLoop ?fc3 ps"
    by (simp add: Let_def)
  have s2: "styles ?fc2 = styles fc"
    by (simp add: AddEdge_def AddNode_def)
  from Cons.prems step have "l \<in> set (styles (podNodesLoop ?fc3 ps))" by simp
  then have "l \<in> set (styles ?fc3) \<or> (\<exists>t. l = ''    style pod_'' @ t)"
    by (rule Cons.IH)
  moreover have "l \<in> set (styles ?fc3) \<Longrightarrow> l \<in> set (styles fc) \<or> (\<exists>t. l = ''    style pod_'' @ t)"
  proof -
    assume "l \<in> set (styles ?fc3)"
    then have "l \<in> set (styles ?fc2) \<or> (\<exists>t. l = ''    style '' @ ?podID @ t)"
      using AddStyle_styles by (auto split: if_splits)
    moreover have "\<And>t. ''    style '' @ ?podID @ t = ''    style pod_'' @ (ReplaceAllString (PodName p) @ t)"
      unfolding SafeID_pod by simp
    ultimately show ?thesis using s2 by metis
  qed
  ultimately show ?case by blast
qed

lemma podNodesLoop_lines: "set (lines fc) \<subseteq> set (lines (podNodesLoop fc pods))"
proof (induction pods arbitrary: fc)
  case Nil
  then show ?case by simp
next
  case (Cons p ps)
  let ?podID = "SafeID (''pod_'' @ PodName p)"
  let ?fc2 = "AddEdge (AddNode fc ?podID
      (if length (PodName p) > 30 then take 30 (PodName p) @ ''...'' else PodName p) ShapeRound)
      ''svc'' ?podID [] EdgeSolid"
  let ?fc3 = "if \<not> isPodHealthy p then AddStyle ?fc2 ?podID SeverityCritical
              else AddStyle ?fc2 ?podID SeverityHealthy"
  have step: "podNodesLoop fc (p # ps) = podNodesLoop ?fc3 ps"
    by (simp add: Let_def)
  have "set (lines fc) \<subseteq> set (lines ?fc3)"
    by (auto simp: AddEdge_def AddNode_def AddStyle_def split: option.splits)
  then show ?case using Cons.IH [of ?fc3] step by auto
qed

lemma topology_no_svc_style:
  "l \<in> set (styles (requestPathTopology ing rule matchedPath svc pods)) \<Longrightarrow>
   \<not> HasPrefix l ''    style svc ''"
proof -
  assume a: "l \<in> set (styles (requestPathTopology ing rule matchedPath svc pods))"
  then have "l = ''    style agw fill:#cce5ff,stroke:#4a90d9,stroke-width:2px''
            \<or> (\<exists>t. l = ''    style pod_'' @ t)"
    unfolding requestPathTopology_def Let_def
    by (auto dest!: podNodesLoop_styles
        simp: AddRawStyle_def AddEdge_def AddNode_def NewFlowchart_def)
  then show ?thesis by (auto simp: HasPrefix_iff)
qed

lemma topology_svc_node:
  "''    svc['' @ EscapeLabel (''Service: '' @ SvcName svc @ BR @ ''ClusterIP:'' @ backendSvcPort matchedPath) @ '']''
     \<in> set (lines (requestPathTopology ing rule matchedPath svc pods))"
proof -
  let ?fc6 = "AddRawStyle (AddEdge (AddEdge (AddNode (AddNode (AddNode (NewFlowchart DirectionTB)
      ''internet'' ''Internet'' ShapeCircle) ''agw''
      (''Ingress: '' @ IngName ing @ BR @ BR @ '': '' @ Host rule @ ''  Path: '' @ Path matchedPath) ShapeTrapAlt)
      ''svc'' (''Service: '' @ SvcName svc @ BR @ ''ClusterIP:'' @ backendSvcPort matchedPath) ShapeRect)
      ''internet'' ''agw'' ''HTTPS'' EdgeSolid) ''agw'' ''svc'' [] EdgeSolid)
      ''agw'' ''fill:#cce5ff,stroke:#4a90d9,stroke-width:2px''"
  have "''    svc['' @ EscapeLabel (''Service: '' @ SvcName svc @ BR @ ''ClusterIP:'' @ backendSvcPort matchedPath) @ '']''
     \<in> set (lines ?fc6)"
    by (simp add: AddRawStyle_def AddEdge_def AddNode_def NewFlowchart_def nodeShape_def
        ShapeRect_def ShapeRound_def ShapeStadium_def ShapeCircle_def ShapeDiamond_def ShapeHex_def
        ShapeTrapAlt_def ShapeCyl_def)
  then show ?thesis
    using podNodesLoop_lines [of ?fc6 pods]
    unfolding requestPathTopology_def Let_def by blast
qed

text \<open>
  C1, as the code has it. When the backend service has no ready and two not-ready
  endpoints, the endpoints stage writes the line \<open>Ready: 0/2\<close> and exactly one finding,
  the WARNING \<open>2 endpoint(s) not ready\<close>, followed by one line per not-ready address, and
  counts one finding. The topology flowchart declares the node \<open>svc\<close>, and none of its
  style lines is for that node: only the ingress node and the pod nodes are styled.
\<close>

theorem request_path_not_ready_endpoints:
  "(ReadyCount h = 0 \<and> NotReadyCount h = 2
      \<and> GetServiceEndpointHealth getEndpoints (IngNamespace ing) (SvcName svc) = Inr h
     \<longrightarrow> endpointsStage (Inr h) svc ing r
           = r\<lparr>sb := sb r @ [Str (''[3] ENDPOINTS'' @ newline),
                              Str (''    Ready: 0/2'' @ newline),
                              Str ''    '', FormatFinding ''WARNING'' ''2 endpoint(s) not ready'', Str newline]
                           @ map (\<lambda>nr. Str (''      - '' @ EaPodName nr @ '' ('' @ IP nr @ '')'' @ newline))
                               (NotReadyPods h),
                 findings := findings r + 1\<rparr>)
   \<and> ''    svc['' @ EscapeLabel (''Service: '' @ SvcName svc @ BR @ ''ClusterIP:'' @ backendSvcPort matchedPath) @ '']''
       \<in> set (lines (requestPathTopology ing rule matchedPath svc pods))
   \<and> (\<forall>l \<in> set (styles (requestPathTopology ing rule matchedPath svc pods)).
         \<not> HasPrefix l ''    style svc '')"
proof (intro conjI impI ballI)
  assume a: "ReadyCount h = 0 \<and> NotReadyCount h = 2
      \<and> GetServiceEndpointHealth getEndpoints (IngNamespace ing) (SvcName svc) = Inr h"
  then have t: "TotalEndpoints h = 2"
    by (auto simp: GetServiceEndpointHealth_def Let_def split: sum.splits)
  have d: "fmt_d 0 = ''0''" "fmt_d 2 = ''2''"
    by (simp_all add: fmt_d_def natToDec.simps)
  show "endpointsStage (Inr h) svc ing r
           = r\<lparr>sb := sb r @ [Str (''[3] ENDPOINTS'' @ newline),
                              Str (''    Ready: 0/2'' @ newline),
                              Str ''    '', FormatFinding ''WARNING'' ''2 endpoint(s) not ready'', Str newline]
                           @ map (\<lambda>nr. Str (''      - '' @ EaPodName nr @ '' ('' @ IP nr @ '')'' @ newline))
                               (NotReadyPods h),
                 findings := findings r + 1\<rparr>"
    using a t by (simp add: endpointsStage_def WriteString_def Let_def d)
next
  show "''    svc['' @ EscapeLabel (''Service: '' @ SvcName svc @ BR @ ''ClusterIP:'' @ backendSvcPort matchedPath) @ '']''
       \<in> set (lines (requestPathTopology ing rule matchedPath svc pods))"
    by (rule topology_svc_node)
next
  fix l assume "l \<in> set (styles (requestPathTopology ing rule matchedPath svc pods))"
  then show "\<not> HasPrefix l ''    style svc ''" by (rule topology_no_svc_style)
qed

theorem request_path_not_ready_endpoints_witness:
  "FindIngressForHostPath apiListIngresses [] ''api.example.com'' ''/v1/users''
     = Inr (apiIngress, apiRule, apiPath)
   \<and> GetServiceEndpointHealth apiCluster ''default'' ''api'' = Inr apiHealth
   \<and> endpointsStage (Inr apiHealth) apiService apiIngress emptyReport
     = \<lparr>sb = [Str (''[3] ENDPOINTS'' @ newline), Str (''    Ready: 0/2'' @ newline),
              Str ''    '', FormatFinding ''WARNING'' ''2 endpoint(s) not ready'', Str newline,
              Str (''      - api-1 (10.1.0.5)'' @ newline), Str (''      - api-2 (10.1.0.6)'' @ newline)],
        findings = 1, actions = []\<rparr>"
proof -
  have f: "FindIngressForHostPath apiListIngresses [] ''api.example.com'' ''/v1/users''
     = Inr (apiIngress, apiRule, apiPath)"
    by (simp add: FindIngressForHostPath_def apiListIngresses_def apiIngress_def apiRule_def apiPath_def
        matchPath_def HasPrefix_def PathTypePrefix_def PathTypeExact_def)
  have g: "GetServiceEndpointHealth apiCluster ''default'' ''api'' = Inr apiHealth"
    by (simp add: GetServiceEndpointHealth_def apiCluster_def apiEndpoints_def apiHealth_def
        mkEndpointAddress_def Let_def)
  have n: "IngNamespace apiIngress = ''default''" "SvcName apiService = ''api''"
    by (simp_all add: apiIngress_def apiService_def)
  show ?thesis
    using f g n
      request_path_not_ready_endpoints [of apiHealth apiCluster apiIngress apiService emptyReport
        apiPath apiRule apiPods]
    by (simp add: apiHealth_def emptyReport_def)
qed

text \<open>In the scenario the style lines are those of the ingress node and of the two
  pods; the service node has none.\<close>

theorem request_path_svc_style_counterexample:
  "styles (requestPathTopology apiIngress apiRule apiPath apiService apiPods)
     = [''    style agw fill:#cce5ff,stroke:#4a90d9,stroke-width:2px'',
        ''    style pod_api_1 fill:#ffcccc,stroke:#cc0000,stroke-width:2px'',
        ''    style pod_api_2 fill:#ffcccc,stroke:#cc0000,stroke-width:2px'']"
  by (simp add: requestPathTopology_def apiPods_def examplePod_def waitingStatus_def noState_def
      NewFlowchart_def AddNode_def AddEdge_def AddStyle_def AddRawStyle_def
      SafeID_def idChar_def isDigit_def runeWidth_def Let_def
      severityStyles_def SeverityCritical_def SeverityHealthy_def
      SeverityWarning_def SeverityInfo_def isPodHealthy_def PodRunning_def PodPending_def PodSucceeded_def)

end
